theory Spec2Isabelle
  imports Main "HOL-Library.Word"
begin

unbundle bit_operations_syntax

section \<open>Values of the two scripts\<close>

text \<open>
  A Python \<open>bytes\<close> object is a list of 8-bit words. A Python \<open>str\<close> is a list of
  Unicode code points (natural numbers), so that the non-ASCII literals of the client and
  the non-ASCII check of \<open>base64.b64decode\<close> can be written down. \<open>ascii\<close> turns an
  Isabelle string literal into such a \<open>str\<close>, \<open>bytes_lit\<close> into \<open>bytes\<close>.
\<close>

type_synonym byte = "8 word"
type_synonym pystr = "nat list"

definition ascii :: "string \<Rightarrow> pystr" where
  "ascii s = map of_char s"

definition bytes_lit :: "string \<Rightarrow> byte list" where
  "bytes_lit s = map of_char s"

text \<open>
  The exceptions the two scripts can end with. \<open>BinasciiError\<close> is \<open>binascii.Error\<close>,
  the error of the base64 decoder (the DecodeError of the specification); \<open>OSError p\<close> is
  the failure of \<open>open\<close> on the path \<open>p\<close> (the IOError of the specification);
  \<open>ConnectionError\<close> and \<open>TooManyRedirects\<close> are exceptions of \<open>requests\<close>;
  \<open>SystemExit n\<close> is what \<open>sys.exit(n)\<close> raises.
\<close>

datatype exn =
    OSError pystr
  | UnicodeDecodeError
  | UnicodeEncodeError
  | ValueError
  | TypeError
  | KeyError pystr
  | OverflowError
  | BinasciiError
  | JSONDecodeError
  | ConnectionError
  | TooManyRedirects
  | SystemExit int

section \<open>The base64 codec of the Python standard library\<close>

text \<open>
  Neither script implements base64: both call \<open>base64.b64decode\<close> of the standard library
  with its default arguments (\<open>altchars=None\<close>, \<open>validate=False\<close>). It is modelled here as
  CPython 3.11 implements it: \<open>base64.b64decode(s)\<close> turns a \<open>str\<close> into bytes with
  \<open>s.encode('ascii')\<close> (a \<open>ValueError\<close> when a character is not ASCII) and returns
  \<open>binascii.a2b_base64(s, strict_mode=False)\<close>, the loop of \<open>Modules/binascii.c\<close>.
\<close>

definition BASE64_PAD :: byte where
  "BASE64_PAD = 61"

text \<open>The alphabet of RFC 4648, section 4: the character of each 6-bit value.\<close>

definition table_b2a_base64 :: "byte list" where
  "table_b2a_base64 = map of_char
     ''ABCDEFGHIJKLMNOPQRSTUVWXYZabcdefghijklmnopqrstuvwxyz0123456789+/''"

definition b2a :: "byte \<Rightarrow> byte" where
  "b2a i = table_b2a_base64 ! unat i"

text \<open>
  The standard encoding (RFC 4648, what \<open>base64.b64encode\<close> returns): three bytes become
  four characters; a last group of one or two bytes is padded with \<open>=\<close>.
\<close>

fun b64encode :: "byte list \<Rightarrow> byte list" where
  "b64encode [] = []"
| "b64encode [a] =
     [b2a (drop_bit 2 a), b2a (push_bit 4 (a AND 3)), BASE64_PAD, BASE64_PAD]"
| "b64encode [a, b] =
     [b2a (drop_bit 2 a), b2a (push_bit 4 (a AND 3) OR drop_bit 4 b),
      b2a (push_bit 2 (b AND 15)), BASE64_PAD]"
| "b64encode (a # b # c # rest) =
     [b2a (drop_bit 2 a), b2a (push_bit 4 (a AND 3) OR drop_bit 4 b),
      b2a (push_bit 2 (b AND 15) OR drop_bit 6 c), b2a (c AND 63)] @ b64encode rest"

text \<open>
  The decoding table of \<open>binascii.c\<close>: the 6-bit value of a character of the alphabet, and
  a value of 64 or more (here 255) for every other byte.
\<close>

definition table_a2b_base64 :: "byte \<Rightarrow> byte" where
  "table_a2b_base64 c =
     (if 65 \<le> c \<and> c \<le> 90 then c - 65
      else if 97 \<le> c \<and> c \<le> 122 then c - 71
      else if 48 \<le> c \<and> c \<le> 57 then c + 4
      else if c = 43 then 62
      else if c = 47 then 63
      else 255)"

text \<open>
  The loop of \<open>binascii_a2b_base64_impl\<close> with \<open>strict_mode = 0\<close>, over the rest of the
  input. \<open>quad_pos\<close> is the position in the current group of four characters,
  \<open>leftchar\<close> the bits left over from the previous character, \<open>pads\<close> the number of
  \<open>=\<close> seen since the last character of the alphabet (counted only when
  \<open>quad_pos \<ge> 2\<close>, as the short-circuit \<open>quad_pos >= 2 && quad_pos + ++pads >= 4\<close> does),
  \<open>bin_data\<close> the bytes written so far. A pad that completes a group ends the decoding
  (\<open>goto done\<close>) whatever follows; a byte outside the alphabet is skipped (\<open>continue\<close>);
  at the end of the input an incomplete group is the error \<open>binascii.Error\<close>.
\<close>

fun a2b_loop :: "nat \<Rightarrow> byte \<Rightarrow> nat \<Rightarrow> byte list \<Rightarrow> byte list \<Rightarrow> exn + byte list" where
  "a2b_loop quad_pos leftchar pads bin_data [] =
     (if quad_pos \<noteq> 0 then Inl BinasciiError else Inr bin_data)"
| "a2b_loop quad_pos leftchar pads bin_data (c # ascii_data) =
     (if c = BASE64_PAD then
        (if quad_pos \<ge> 2 then
           (if quad_pos + (pads + 1) \<ge> 4 then Inr bin_data
            else a2b_loop quad_pos leftchar (pads + 1) bin_data ascii_data)
         else a2b_loop quad_pos leftchar pads bin_data ascii_data)
      else
        (let this_ch = table_a2b_base64 c in
         if this_ch \<ge> 64 then a2b_loop quad_pos leftchar pads bin_data ascii_data
         else if quad_pos = 0 then a2b_loop 1 this_ch 0 bin_data ascii_data
         else if quad_pos = 1 then
           a2b_loop 2 (this_ch AND 15) 0
             (bin_data @ [push_bit 2 leftchar OR drop_bit 4 this_ch]) ascii_data
         else if quad_pos = 2 then
           a2b_loop 3 (this_ch AND 3) 0
             (bin_data @ [push_bit 4 leftchar OR drop_bit 2 this_ch]) ascii_data
         else
           a2b_loop 0 0 0 (bin_data @ [push_bit 6 leftchar OR this_ch]) ascii_data))"

definition a2b_base64 :: "byte list \<Rightarrow> exn + byte list" where
  "a2b_base64 ascii_data = a2b_loop 0 0 0 [] ascii_data"

text \<open>
  \<open>base64.b64decode\<close> applied to a \<open>str\<close>: \<open>_bytes_from_decode_data\<close> encodes it as
  ASCII and turns the \<open>UnicodeEncodeError\<close> of a non-ASCII character into a
  \<open>ValueError\<close>; the bytes go to \<open>a2b_base64\<close>.
\<close>

definition is_ascii :: "pystr \<Rightarrow> bool" where
  "is_ascii s = list_all (\<lambda>c. c < 128) s"

definition b64decode :: "pystr \<Rightarrow> exn + byte list" where
  "b64decode s = (if is_ascii s then a2b_base64 (map of_nat s) else Inl ValueError)"

text \<open>The text of an ASCII byte string (\<open>bytes.decode('ascii')\<close>).\<close>

definition ascii_text :: "byte list \<Rightarrow> pystr" where
  "ascii_text bs = map unat bs"

section \<open>Strings\<close>

text \<open>
  \<open>str.strip()\<close> removes the leading and trailing characters for which
  \<open>str.isspace\<close> holds: the Unicode white space characters.
\<close>

definition py_isspace :: "nat \<Rightarrow> bool" where
  "py_isspace c =
     ((9 \<le> c \<and> c \<le> 13) \<or> (28 \<le> c \<and> c \<le> 32) \<or> c = 133 \<or> c = 160 \<or> c = 5760
      \<or> (8192 \<le> c \<and> c \<le> 8202) \<or> c = 8232 \<or> c = 8233 \<or> c = 8239 \<or> c = 8287
      \<or> c = 12288)"

definition strip :: "pystr \<Rightarrow> pystr" where
  "strip s = rev (dropWhile py_isspace (rev (dropWhile py_isspace s)))"

text \<open>
  Reading in text mode translates the line endings \<open>\r\n\<close> and \<open>\r\<close> into \<open>\n\<close>
  (universal newlines, the default of \<open>open\<close>).
\<close>

fun universal_newlines :: "pystr \<Rightarrow> pystr" where
  "universal_newlines [] = []"
| "universal_newlines [c] = (if c = 13 then [10] else [c])"
| "universal_newlines (c # d # s) =
     (if c = 13 \<and> d = 10 then 10 # universal_newlines s
      else if c = 13 then 10 # universal_newlines (d # s)
      else c # universal_newlines (d # s))"

text \<open>\<open>str(n)\<close> of an integer: its decimal digits, with a minus sign when negative.\<close>

fun digits :: "nat \<Rightarrow> pystr" where
  "digits n = (if n < 10 then [48 + n] else digits (n div 10) @ [48 + n mod 10])"

declare digits.simps [simp del]

definition str_int :: "int \<Rightarrow> pystr" where
  "str_int i = (if i < 0 then 45 # digits (nat (- i)) else digits (nat i))"

text \<open>
  \<open>repr\<close> of a \<open>str\<close>: single quotes, unless the string has a single quote and no double
  quote; the quote in use and the backslash are escaped, tab, newline and carriage
  return are written \<open>\t\<close>, \<open>\n\<close>, \<open>\r\<close>, the other ASCII control characters
  \<open>\xNN\<close>. Code points above 127 are copied (CPython escapes the non-printable ones:
  the literals of the client have none).
\<close>

definition hex_digit :: "nat \<Rightarrow> nat" where
  "hex_digit d = (if d < 10 then 48 + d else 87 + d)"

definition repr_char :: "nat \<Rightarrow> nat \<Rightarrow> pystr" where
  "repr_char quote c =
     (if c = quote \<or> c = 92 then [92, c]
      else if c = 9 then [92, 116]
      else if c = 10 then [92, 110]
      else if c = 13 then [92, 114]
      else if c < 32 \<or> c = 127 then [92, 120, hex_digit (c div 16), hex_digit (c mod 16)]
      else [c])"

definition repr_str :: "pystr \<Rightarrow> pystr" where
  "repr_str s =
     (let quote = (if 39 \<in> set s \<and> 34 \<notin> set s then 34 else 39)
      in quote # concat (map (repr_char quote) s) @ [quote])"

text \<open>
  \<open>str\<close> of a \<open>dict\<close> of strings, in insertion order:
  \<open>{k1: v1, k2: v2}\<close> with every key and value written by \<open>repr\<close>.
\<close>

fun join_items :: "pystr list \<Rightarrow> pystr" where
  "join_items [] = []"
| "join_items [x] = x"
| "join_items (x # y # xs) = x @ ascii '', '' @ join_items (y # xs)"

definition str_dict :: "(pystr \<times> pystr) list \<Rightarrow> pystr" where
  "str_dict d =
     ascii ''{'' @ join_items (map (\<lambda>(k, v). repr_str k @ ascii '': '' @ repr_str v) d)
       @ ascii ''}''"

text \<open>\<open>s.replace(old, new)\<close> for one-character \<open>old\<close> and \<open>new\<close>.\<close>

definition replace_char :: "nat \<Rightarrow> nat \<Rightarrow> pystr \<Rightarrow> pystr" where
  "replace_char old new s = map (\<lambda>c. if c = old then new else c) s"

section \<open>JSON values and formatting\<close>

text \<open>
  What \<open>response.json()\<close> returns: the Python value of a JSON document. A JSON number
  with a fraction or an exponent is a Python \<open>float\<close>; floating point is not modelled,
  so a float is a value of a type parameter \<open>'f\<close>. An object is a \<open>dict\<close>: its keys in
  insertion order, each key once.
\<close>

datatype 'f jvalue =
    JNull
  | JBool bool
  | JInt int
  | JFloat 'f
  | JStr pystr
  | JArr "'f jvalue list"
  | JObj "(pystr \<times> 'f jvalue) list"

text \<open>
  \<open>v[key]\<close> with a string key: the value of the key in a \<open>dict\<close>, \<open>KeyError\<close> when it
  is missing, \<open>TypeError\<close> for every other JSON value (a list and a string take integer
  indices only, the others are not subscriptable).
\<close>

fun getitem :: "'f jvalue \<Rightarrow> pystr \<Rightarrow> exn + 'f jvalue" where
  "getitem (JObj d) key = (case map_of d key of None \<Rightarrow> Inl (KeyError key) | Some v \<Rightarrow> Inr v)"
| "getitem _ key = Inl TypeError"

text \<open>
  The pieces of a printed line. \<open>Txt s\<close> is literal text; \<open>Shown v\<close> stands for the text
  \<open>str(v)\<close> of a JSON value that is not a string; \<open>Fixed2 x\<close> stands for the text of the
  number \<open>x\<close> formatted with \<open>.2f\<close> (the rounding of floats is not modelled).
\<close>

datatype 'f number = NInt int | NFloat 'f

datatype 'f piece = Txt pystr | Shown "'f jvalue" | Fixed2 "'f number"

text \<open>\<open>{v}\<close> in an f-string, and \<open>print(v)\<close>: a string is copied, another value is shown.\<close>

fun format_str :: "'f jvalue \<Rightarrow> 'f piece" where
  "format_str (JStr s) = Txt s"
| "format_str v = Shown v"

text \<open>
  \<open>{v:.2f}\<close> in an f-string: defined for numbers (a \<open>bool\<close> is an \<open>int\<close>). An \<open>int\<close>
  is converted to a float first, which raises \<open>OverflowError\<close> when it rounds to
  \<open>2 ^ 1024\<close> or more. A string raises \<open>ValueError\<close> (unknown format code), \<open>None\<close>, a
  list and a dict raise \<open>TypeError\<close>.
\<close>

definition float_overflow :: "int \<Rightarrow> bool" where
  "float_overflow n = (2 ^ 1024 - 2 ^ 970 \<le> \<bar>n\<bar>)"

fun format_2f :: "'f jvalue \<Rightarrow> exn + 'f piece" where
  "format_2f (JInt n) = (if float_overflow n then Inl OverflowError else Inr (Fixed2 (NInt n)))"
| "format_2f (JBool b) = Inr (Fixed2 (NInt (if b then 1 else 0)))"
| "format_2f (JFloat x) = Inr (Fixed2 (NFloat x))"
| "format_2f (JStr s) = Inl ValueError"
| "format_2f JNull = Inl TypeError"
| "format_2f (JArr xs) = Inl TypeError"
| "format_2f (JObj d) = Inl TypeError"

text \<open>
  \<open>base64.b64decode(v)\<close> for a JSON value \<open>v\<close>: a string is decoded; any other value is
  neither a string nor bytes-like, a \<open>TypeError\<close>.
\<close>

fun b64decode_value :: "'f jvalue \<Rightarrow> exn + byte list" where
  "b64decode_value (JStr s) = b64decode s"
| "b64decode_value v = Inl TypeError"

section \<open>The world: files, console and network\<close>

text \<open>
  \<open>files\<close> maps a path to the content of the file there; \<open>denied\<close> holds for the paths
  that cannot be opened (no permission, a missing directory). \<open>text_decoding\<close> is the
  text encoding of the platform, which a file opened in mode \<open>r\<close> is read with (\<open>None\<close>
  for bytes it cannot decode). \<open>stdout_encodes\<close> holds for the code points above 127
  that the encoding of the console can write (every console encoding writes ASCII), and
  \<open>stdout_shows v\<close> says whether it can write the text \<open>str(v)\<close> of the list or dict
  \<open>v\<close>. \<open>http_post n req\<close> and \<open>http_get n url\<close> are the answers of the network to
  the \<open>n\<close>-th message of an exchange (the first is number 0): a response, or the
  exception of the transport. \<open>trace\<close> lists what the program did, in order: the lines it
  printed, the calls of \<open>open\<close>, the requests it sent.
\<close>

datatype mode = Mode_r | Mode_rb | Mode_wb

record request =
  url :: pystr
  file_parts :: "(pystr \<times> pystr \<times> byte list) list"
  data_parts :: "(pystr \<times> pystr) list"

text \<open>
  What the client reads of a response: its status, its \<open>Location\<close> header when it has
  one (as an absolute address), and the result of \<open>response.json()\<close>.
\<close>

record 'f response =
  status_code :: int
  location :: "pystr option"
  json :: "exn + 'f jvalue"

datatype 'f event =
    Print "'f piece list"
  | Open pystr mode
  | Post request
  | Get pystr

record 'f world =
  files :: "pystr \<rightharpoonup> byte list"
  denied :: "pystr \<Rightarrow> bool"
  text_decoding :: "byte list \<Rightarrow> pystr option"
  stdout_encodes :: "nat \<Rightarrow> bool"
  stdout_shows :: "'f jvalue \<Rightarrow> bool"
  http_post :: "nat \<Rightarrow> request \<Rightarrow> exn + 'f response"
  http_get :: "nat \<Rightarrow> pystr \<Rightarrow> exn + 'f response"
  trace :: "'f event list"

text \<open>
  A statement runs in a world and ends with a value or an exception, in a new world.
  \<open>seq\<close> runs a statement and then the rest of the program with its value; an exception
  skips the rest.
\<close>

type_synonym ('f, 'a) prog = "'f world \<Rightarrow> (exn + 'a) \<times> 'f world"

definition ret :: "'a \<Rightarrow> ('f, 'a) prog" where
  "ret x w = (Inr x, w)"

definition raise :: "exn \<Rightarrow> ('f, 'a) prog" where
  "raise e w = (Inl e, w)"

definition lift :: "exn + 'a \<Rightarrow> ('f, 'a) prog" where
  "lift r w = (r, w)"

definition seq :: "('f, 'a) prog \<Rightarrow> ('a \<Rightarrow> ('f, 'b) prog) \<Rightarrow> ('f, 'b) prog" where
  "seq m k w = (case m w of (Inl e, w') \<Rightarrow> (Inl e, w') | (Inr x, w') \<Rightarrow> k x w')"

definition emit :: "'f event \<Rightarrow> ('f, unit) prog" where
  "emit ev w = (Inr (), w\<lparr>trace := trace w @ [ev]\<rparr>)"

text \<open>
  \<open>print\<close> encodes the whole line for the console before it writes: when a character
  of the line cannot be encoded it raises \<open>UnicodeEncodeError\<close> and nothing is written.
  The text of a number is ASCII, and so is \<open>str(v)\<close> for \<open>None\<close>, a Boolean and a
  number; \<open>str(v)\<close> of a list or a dict escapes the characters that are not printable
  and keeps the others, so whether it can be written is left to the world.
\<close>

fun piece_encodable :: "'f world \<Rightarrow> 'f piece \<Rightarrow> bool" where
  "piece_encodable w (Txt s) = list_all (\<lambda>c. c < 128 \<or> stdout_encodes w c) s"
| "piece_encodable w (Shown (JArr xs)) = stdout_shows w (JArr xs)"
| "piece_encodable w (Shown (JObj d)) = stdout_shows w (JObj d)"
| "piece_encodable w (Shown v) = True"
| "piece_encodable w (Fixed2 x) = True"

definition can_print :: "'f world \<Rightarrow> 'f piece list \<Rightarrow> bool" where
  "can_print w ps = list_all (piece_encodable w) ps"

definition py_print :: "'f piece list \<Rightarrow> ('f, unit) prog" where
  "py_print ps w = (if can_print w ps then emit (Print ps) w else (Inl UnicodeEncodeError, w))"

text \<open>
  \<open>open(path, 'r')\<close> and \<open>open(path, 'rb')\<close> followed by reading the whole file: the
  call is recorded; it fails when the path is denied or no file is there.
\<close>

definition open_read :: "pystr \<Rightarrow> mode \<Rightarrow> ('f, byte list) prog" where
  "open_read path m =
     seq (emit (Open path m)) (\<lambda>_ w.
       if denied w path then (Inl (OSError path), w)
       else case files w path of
              None \<Rightarrow> (Inl (OSError path), w)
            | Some content \<Rightarrow> (Inr content, w))"

definition read_text :: "pystr \<Rightarrow> ('f, pystr) prog" where
  "read_text path =
     seq (open_read path Mode_r) (\<lambda>content w.
       case text_decoding w content of
         None \<Rightarrow> (Inl UnicodeDecodeError, w)
       | Some s \<Rightarrow> (Inr (universal_newlines s), w))"

text \<open>\<open>open(path, 'wb')\<close>: the call is recorded; the file is created, or emptied.\<close>

definition open_wb :: "pystr \<Rightarrow> ('f, unit) prog" where
  "open_wb path =
     seq (emit (Open path Mode_wb)) (\<lambda>_ w.
       if denied w path then (Inl (OSError path), w)
       else (Inr (), w\<lparr>files := (files w)(path \<mapsto> [])\<rparr>))"

text \<open>\<open>f.write(data)\<close> on a file just opened with \<open>wb\<close>.\<close>

definition f_write :: "pystr \<Rightarrow> byte list \<Rightarrow> ('f, unit) prog" where
  "f_write path data w =
     (Inr (), w\<lparr>files := (files w)(path \<mapsto> (case files w path of None \<Rightarrow> [] | Some old \<Rightarrow> old) @ data)\<rparr>)"

text \<open>
  \<open>requests.post\<close> is called with its defaults, so it follows redirects
  (\<open>allow_redirects=True\<close>), as \<open>Session.resolve_redirects\<close> of \<open>requests\<close> does. A
  response is a redirect when its status is 301, 302, 303, 307 or 308 and it has a
  \<open>Location\<close> header. The next message goes to that address: after 302 and 303, and
  after 301 for a POST, it is a GET; the body is sent again only after 307 and 308. After
  30 redirects a further one raises \<open>TooManyRedirects\<close>.
\<close>

datatype http_method = GET | POST

definition redirect_target :: "'f response \<Rightarrow> pystr option" where
  "redirect_target r =
     (if status_code r = 301 \<or> status_code r = 302 \<or> status_code r = 303
         \<or> status_code r = 307 \<or> status_code r = 308
      then location r else None)"

definition rebuild_method :: "http_method \<Rightarrow> int \<Rightarrow> http_method" where
  "rebuild_method m status =
     (if status = 303 \<or> status = 302 then GET
      else if status = 301 \<and> m = POST then GET
      else m)"

definition redirected :: "request \<Rightarrow> int \<Rightarrow> pystr \<Rightarrow> request" where
  "redirected req status target =
     (if status = 307 \<or> status = 308 then req\<lparr>url := target\<rparr>
      else \<lparr>url = target, file_parts = [], data_parts = []\<rparr>)"

definition DEFAULT_REDIRECT_LIMIT :: nat where
  "DEFAULT_REDIRECT_LIMIT = 30"

fun sent :: "http_method \<Rightarrow> request \<Rightarrow> 'f event" where
  "sent POST req = Post req"
| "sent GET req = Get (url req)"

fun answer ::
  "(nat \<Rightarrow> request \<Rightarrow> exn + 'f response) \<Rightarrow> (nat \<Rightarrow> pystr \<Rightarrow> exn + 'f response) \<Rightarrow>
   nat \<Rightarrow> http_method \<Rightarrow> request \<Rightarrow> exn + 'f response" where
  "answer post get n POST req = post n req"
| "answer post get n GET req = get n (url req)"

text \<open>
  The messages of one call and its result. \<open>allowed\<close> counts the redirects that may
  still be followed, \<open>n\<close> the messages sent before this one.
\<close>

fun exchange ::
  "(nat \<Rightarrow> request \<Rightarrow> exn + 'f response) \<Rightarrow> (nat \<Rightarrow> pystr \<Rightarrow> exn + 'f response) \<Rightarrow>
   nat \<Rightarrow> nat \<Rightarrow> http_method \<Rightarrow> request \<Rightarrow> 'f event list \<times> (exn + 'f response)" where
  "exchange post get 0 n m req =
     (case answer post get n m req of
        Inl e \<Rightarrow> ([sent m req], Inl e)
      | Inr r \<Rightarrow>
          (case redirect_target r of
             None \<Rightarrow> ([sent m req], Inr r)
           | Some target \<Rightarrow> ([sent m req], Inl TooManyRedirects)))"
| "exchange post get (Suc allowed) n m req =
     (case answer post get n m req of
        Inl e \<Rightarrow> ([sent m req], Inl e)
      | Inr r \<Rightarrow>
          (case redirect_target r of
             None \<Rightarrow> ([sent m req], Inr r)
           | Some target \<Rightarrow>
               (case exchange post get allowed (Suc n) (rebuild_method m (status_code r))
                       (redirected req (status_code r) target) of
                  (evs, result) \<Rightarrow> (sent m req # evs, result))))"

definition requests_post :: "request \<Rightarrow> ('f, 'f response) prog" where
  "requests_post req w =
     (case exchange (http_post w) (http_get w) DEFAULT_REDIRECT_LIMIT 0 POST req of
        (evs, result) \<Rightarrow> (result, w\<lparr>trace := trace w @ evs\<rparr>))"

text \<open>
  The exit status of the process: 0 when the script runs to its end, the argument of
  \<open>sys.exit\<close>, and 1 for any other exception, which nothing catches.
\<close>

fun exit_status :: "exn + unit \<Rightarrow> int" where
  "exit_status (Inr _) = 0"
| "exit_status (Inl (SystemExit n)) = n"
| "exit_status (Inl _) = 1"

section \<open>base64_decoder.py\<close>

definition decoder :: "('f, unit) prog" where
  "decoder =
     seq (read_text (ascii ''base64_input.txt'')) (\<lambda>content.
       let base64_string = strip content in
       seq (lift (b64decode base64_string)) (\<lambda>decoded_bytes.
         seq (open_wb (ascii ''decoded_file.gcode'')) (\<lambda>_.
           f_write (ascii ''decoded_file.gcode'') decoded_bytes)))"

section \<open>slicer_service/examples/client.py\<close>

definition config :: "(pystr \<times> pystr) list" where
  "config =
     [(ascii ''printer_preset'', ascii ''Bambu Lab A1''),
      (ascii ''filament_preset'', ascii ''Bambu PLA Basic @BBL A1''),
      (ascii ''process_preset'', ascii ''0.20mm Standard @BBL A1'')]"

definition default_server_url :: pystr where
  "default_server_url = ascii ''http://localhost:8080''"

text \<open>
  The non-ASCII characters the client prints before its messages: a folder (U+1F4C1), a
  rocket (U+1F680), a cross mark (U+274C), a check mark (U+2705) and a floppy disk
  (U+1F4BE).
\<close>

definition slice_model :: "pystr \<Rightarrow> pystr \<Rightarrow> pystr \<Rightarrow> ('f, unit) prog" where
  "slice_model model_path output_path server_url =
     seq (py_print [Txt (128193 # ascii '' Loading model: ''), Txt model_path]) (\<lambda>_.
     seq (open_read model_path Mode_rb) (\<lambda>f.
       let files = [(ascii ''model'', model_path, f)];
           data = [(ascii ''config'', replace_char 39 34 (str_dict config))]
       in
     seq (py_print [Txt (128640 # ascii '' Sending to ''), Txt server_url,
                    Txt (ascii ''/slice...'')]) (\<lambda>_.
     seq (requests_post \<lparr>url = server_url @ ascii ''/slice'', file_parts = files,
                         data_parts = data\<rparr>) (\<lambda>response.
     if status_code response \<noteq> 200 then
       seq (py_print [Txt (10060 # ascii '' Error: ''),
                      Txt (str_int (status_code response))]) (\<lambda>_.
       seq (lift (json response)) (\<lambda>body.
       seq (py_print [format_str body]) (\<lambda>_.
       raise (SystemExit 1))))
     else
       seq (lift (json response)) (\<lambda>result.
       seq (lift (getitem result (ascii ''stats''))) (\<lambda>stats.
       seq (py_print [Txt (10 # 9989 # ascii '' Slicing completed!'')]) (\<lambda>_.
       seq (lift (getitem result (ascii ''job_id''))) (\<lambda>job_id.
       seq (py_print [Txt (ascii ''   Job ID: ''), format_str job_id]) (\<lambda>_.
       seq (lift (getitem stats (ascii ''estimated_print_time''))) (\<lambda>print_time.
       seq (py_print [Txt (ascii ''   Print Time: ''), format_str print_time]) (\<lambda>_.
       seq (lift (getitem stats (ascii ''total_used_filament''))) (\<lambda>filament.
       seq (lift (format_2f filament)) (\<lambda>filament_text.
       seq (lift (getitem stats (ascii ''total_weight''))) (\<lambda>weight.
       seq (lift (format_2f weight)) (\<lambda>weight_text.
       seq (py_print [Txt (ascii ''   Filament: ''), filament_text, Txt (ascii '' mm (''),
                      weight_text, Txt (ascii '' g)'')]) (\<lambda>_.
       seq (lift (getitem stats (ascii ''total_cost''))) (\<lambda>cost.
       seq (lift (format_2f cost)) (\<lambda>cost_text.
       seq (py_print [Txt (ascii ''   Cost: $''), cost_text]) (\<lambda>_.
       seq (lift (getitem result (ascii ''gcode''))) (\<lambda>gcode.
       seq (lift (b64decode_value gcode)) (\<lambda>gcode_bytes.
       seq (open_wb output_path) (\<lambda>_.
       seq (f_write output_path gcode_bytes) (\<lambda>_.
       seq (py_print [Txt (10 # 128190 # ascii '' G-code saved to: ''), Txt output_path]) (\<lambda>_.
       py_print [Txt (ascii ''   Size: ''), Txt (str_int (int (length gcode_bytes))),
                 Txt (ascii '' bytes'')]))))))))))))))))))))))))"

text \<open>The script run with the argument list \<open>sys.argv\<close> (the script name first).\<close>

definition main :: "pystr list \<Rightarrow> ('f, unit) prog" where
  "main argv =
     (if length argv < 3 then
        seq (py_print [Txt (ascii ''Usage: python3 client.py <model.stl> <output.gcode>'')]) (\<lambda>_.
        seq (py_print [Txt (10 # ascii ''Example:'')]) (\<lambda>_.
        seq (py_print [Txt (ascii ''  python3 client.py cube.stl output.gcode'')]) (\<lambda>_.
        raise (SystemExit 1))))
      else slice_model (argv ! 1) (argv ! 2) default_server_url)"

section \<open>Auxiliary notions of the statements\<close>

text \<open>
  What the base64 decoding reads of a byte string: the characters of the alphabet and the
  pad characters, in order; and the number of characters of the alphabet in a string.
\<close>

definition base64_chars :: "byte list \<Rightarrow> byte list" where
  "base64_chars bs = filter (\<lambda>c. c = BASE64_PAD \<or> table_a2b_base64 c < 64) bs"

definition data_chars :: "byte list \<Rightarrow> nat" where
  "data_chars bs = length (filter (\<lambda>c. table_a2b_base64 c < 64) bs)"

text \<open>
  A pad character completes a group when it stands after \<open>4m + 3\<close> characters of the
  alphabet, or directly after another pad character and after \<open>4m + 2\<close> characters of
  the alphabet. A string \<open>t\<close> of alphabet and pad characters ends inside a group when it
  has no completing pad and the number of its alphabet characters is not a multiple of 4.
\<close>

definition completing_pad :: "byte list \<Rightarrow> bool" where
  "completing_pad t =
     list_ex (\<lambda>i. t ! i = BASE64_PAD \<and>
                 (data_chars (take i t) mod 4 = 3 \<or>
                  (data_chars (take i t) mod 4 = 2 \<and> 0 < i \<and> t ! (i - 1) = BASE64_PAD)))
       [0..<length t]"

definition incomplete_group :: "byte list \<Rightarrow> bool" where
  "incomplete_group bs =
     (\<not> completing_pad (base64_chars bs) \<and> data_chars (base64_chars bs) mod 4 \<noteq> 0)"

text \<open>
  The same, seen from a state of the decoding loop: \<open>q\<close> characters of the current
  group are read, and \<open>p\<close> pads since the last of them.
\<close>

definition stops_at :: "nat \<Rightarrow> nat \<Rightarrow> byte list \<Rightarrow> bool" where
  "stops_at q p t =
     (\<exists>i. i < length t \<and> t ! i = BASE64_PAD \<and>
          ((q + data_chars (take i t)) mod 4 = 3 \<or>
           ((q + data_chars (take i t)) mod 4 = 2 \<and>
              (if i = 0 then 0 < p else t ! (i - 1) = BASE64_PAD))))"

text \<open>
  A world to run the decoder in: the input file holds \<open>input\<close>, no other file exists,
  every path can be opened, text is read as Latin-1 (each byte is its code point), the
  network is down.
\<close>

definition decoder_world :: "byte list \<Rightarrow> unit world" where
  "decoder_world input =
     \<lparr>files = [ascii ''base64_input.txt'' \<mapsto> input], denied = (\<lambda>_. False),
      text_decoding = (\<lambda>bs. Some (ascii_text bs)),
      stdout_encodes = (\<lambda>_. True), stdout_shows = (\<lambda>_. True),
      http_post = (\<lambda>_ _. Inl ConnectionError), http_get = (\<lambda>_ _. Inl ConnectionError),
      trace = []\<rparr>"

text \<open>
  The POST requests a run sent and the files it opened, read off its trace.
\<close>

fun posted :: "'f event list \<Rightarrow> request list" where
  "posted [] = []"
| "posted (Post req # evs) = req # posted evs"
| "posted (Print ps # evs) = posted evs"
| "posted (Open path m # evs) = posted evs"
| "posted (Get u # evs) = posted evs"

fun opened :: "'f event list \<Rightarrow> (pystr \<times> mode) list" where
  "opened [] = []"
| "opened (Open path m # evs) = (path, m) # opened evs"
| "opened (Print ps # evs) = opened evs"
| "opened (Post req # evs) = opened evs"
| "opened (Get u # evs) = opened evs"

text \<open>A statement that sends no POST request, whatever the world it runs in.\<close>

definition sends_nothing :: "('f, 'a) prog \<Rightarrow> bool" where
  "sends_nothing m = (\<forall>w. posted (trace (snd (m w))) = posted (trace w))"

text \<open>
  The text of a mapping of strings as the specification describes the \<open>config\<close> field:
  \<open>{"k1": "v1", "k2": "v2"}\<close>, every key and value between double quotes.
\<close>

definition json_object_text :: "(pystr \<times> pystr) list \<Rightarrow> pystr" where
  "json_object_text d =
     ascii ''{'' @ join_items (map (\<lambda>(k, v). 34 # k @ 34 # ascii '': '' @ 34 # v @ [34]) d)
       @ ascii ''}''"

text \<open>
  The request of the client for a model file at \<open>model_path\<close> with the bytes \<open>content\<close>,
  and the messages and the result of \<open>requests.post\<close> for it in a world.
\<close>

definition slice_request :: "pystr \<Rightarrow> byte list \<Rightarrow> pystr \<Rightarrow> request" where
  "slice_request model_path content server_url =
     \<lparr>url = server_url @ ascii ''/slice'',
      file_parts = [(ascii ''model'', model_path, content)],
      data_parts = [(ascii ''config'', json_object_text config)]\<rparr>"

definition slice_exchange ::
  "'f world \<Rightarrow> pystr \<Rightarrow> byte list \<Rightarrow> pystr \<Rightarrow> 'f event list \<times> (exn + 'f response)" where
  "slice_exchange w model_path content server_url =
     exchange (http_post w) (http_get w) DEFAULT_REDIRECT_LIMIT 0 POST
       (slice_request model_path content server_url)"

text \<open>The lines the client prints, as lists of pieces.\<close>

definition loading_line :: "pystr \<Rightarrow> 'f piece list" where
  "loading_line model_path = [Txt (128193 # ascii '' Loading model: ''), Txt model_path]"

definition sending_line :: "pystr \<Rightarrow> 'f piece list" where
  "sending_line server_url =
     [Txt (128640 # ascii '' Sending to ''), Txt server_url, Txt (ascii ''/slice...'')]"

definition error_line :: "int \<Rightarrow> 'f piece list" where
  "error_line status = [Txt (10060 # ascii '' Error: ''), Txt (str_int status)]"

definition report_lines ::
  "'f jvalue \<Rightarrow> 'f jvalue \<Rightarrow> 'f number \<Rightarrow> 'f number \<Rightarrow> 'f number \<Rightarrow> 'f piece list list" where
  "report_lines job_id print_time filament weight cost =
     [[Txt (10 # 9989 # ascii '' Slicing completed!'')],
      [Txt (ascii ''   Job ID: ''), format_str job_id],
      [Txt (ascii ''   Print Time: ''), format_str print_time],
      [Txt (ascii ''   Filament: ''), Fixed2 filament, Txt (ascii '' mm (''),
       Fixed2 weight, Txt (ascii '' g)'')],
      [Txt (ascii ''   Cost: $''), Fixed2 cost]]"

definition saved_lines :: "pystr \<Rightarrow> nat \<Rightarrow> 'f piece list list" where
  "saved_lines output_path n =
     [[Txt (10 # 128190 # ascii '' G-code saved to: ''), Txt output_path],
      [Txt (ascii ''   Size: ''), Txt (str_int (int n)), Txt (ascii '' bytes'')]]"

text \<open>
  What the client has done when it calls \<open>requests.post\<close>: it printed the path, opened
  the model and printed the address.
\<close>

definition before_request :: "pystr \<Rightarrow> pystr \<Rightarrow> 'f event list" where
  "before_request model_path server_url =
     [Print (loading_line model_path), Open model_path Mode_rb,
      Print (sending_line server_url)]"

text \<open>
  A JSON number as a value, and whether \<open>.2f\<close> can format it: an integer has to be in
  the range of the floats.
\<close>

fun json_number :: "'f number \<Rightarrow> 'f jvalue" where
  "json_number (NInt n) = JInt n"
| "json_number (NFloat x) = JFloat x"

fun in_float_range :: "'f number \<Rightarrow> bool" where
  "in_float_range (NInt n) = (\<not> float_overflow n)"
| "in_float_range (NFloat x) = True"

text \<open>
  A world to run the client in: the file \<open>cube.stl\<close> holds the bytes \<open>solid\<close>, no other
  file exists, every path can be opened, the console writes UTF-8 (every code point but
  the surrogates), and the service answers every message with \<open>response\<close>. A float of
  a response is named by its JSON literal.
\<close>

definition client_world :: "string response \<Rightarrow> string world" where
  "client_world response =
     \<lparr>files = [ascii ''cube.stl'' \<mapsto> bytes_lit ''solid''], denied = (\<lambda>_. False),
      text_decoding = (\<lambda>bs. Some (ascii_text bs)),
      stdout_encodes = (\<lambda>c. c < 55296 \<or> 57343 < c), stdout_shows = (\<lambda>_. True),
      http_post = (\<lambda>_ _. Inr response), http_get = (\<lambda>_ _. Inr response),
      trace = []\<rparr>"

text \<open>
  Two more worlds for the client. In the first the service answers the first message
  with a temporary redirect (307) to the address it was sent to, and every later message
  with \<open>response\<close>. In the second the console writes ASCII only.
\<close>

definition redirecting_world :: "string response \<Rightarrow> string world" where
  "redirecting_world response =
     (client_world response)
       \<lparr>http_post := (\<lambda>n req. if n = 0
            then Inr \<lparr>status_code = 307, location = Some (url req), json = Inl JSONDecodeError\<rparr>
            else Inr response)\<rparr>"

definition ascii_console_world :: "string response \<Rightarrow> string world" where
  "ascii_console_world response = (client_world response)\<lparr>stdout_encodes := (\<lambda>_. False)\<rparr>"

text \<open>
  A successful answer with the job id \<open>job_id\<close>, a print time of \<open>1h\<close>, the statistics
  100.5, 10.2 and \<open>cost\<close>, and the G-code \<open>X\<close> in base64. The answer of the
  specification's example has the job \<open>abc\<close> and the cost 1.23.
\<close>

definition slice_stats :: "string jvalue \<Rightarrow> string jvalue" where
  "slice_stats cost =
     JObj [(ascii ''estimated_print_time'', JStr (ascii ''1h'')),
           (ascii ''total_used_filament'', JFloat ''100.5''),
           (ascii ''total_weight'', JFloat ''10.2''),
           (ascii ''total_cost'', cost)]"

definition slice_result :: "string jvalue \<Rightarrow> string jvalue \<Rightarrow> string jvalue" where
  "slice_result job_id cost =
     JObj [(ascii ''job_id'', job_id),
           (ascii ''stats'', slice_stats cost),
           (ascii ''gcode'', JStr (ascii ''WA==''))]"

definition ok_response :: "string jvalue \<Rightarrow> string response" where
  "ok_response result = \<lparr>status_code = 200, location = None, json = Inr result\<rparr>"

definition example_result :: "string jvalue" where
  "example_result = slice_result (JStr (ascii ''abc'')) (JFloat ''1.23'')"

definition example_response :: "string response" where
  "example_response = ok_response example_result"

section \<open>Properties of the base64 codec\<close>

subsection \<open>The decoding table inverts the alphabet\<close>

lemma table_all:
  "list_all (\<lambda>k. table_a2b_base64 (b2a (of_nat k)) = of_nat k \<and> b2a (of_nat k) \<noteq> BASE64_PAD
       \<and> b2a (of_nat k) < 128) (0 # 1 # [2..<64])"
  by (simp add: table_a2b_base64_def b2a_def table_b2a_base64_def BASE64_PAD_def)

lemma table_inverse:
  assumes "(i::byte) < 64"
  shows "table_a2b_base64 (b2a i) = i" and "b2a i \<noteq> BASE64_PAD" and "b2a i < 128"
proof -
  from assms have "unat i < 64"
    by (simp add: word_less_nat_alt)
  then have "unat i \<in> set (0 # 1 # [2..<64])"
    by (simp del: upt_rec_numeral) arith
  with table_all have "table_a2b_base64 (b2a (of_nat (unat i))) = of_nat (unat i)
      \<and> b2a (of_nat (unat i)) \<noteq> BASE64_PAD \<and> b2a (of_nat (unat i)) < 128"
    unfolding list_all_iff by blast
  then show "table_a2b_base64 (b2a i) = i" and "b2a i \<noteq> BASE64_PAD" and "b2a i < 128"
    by simp_all
qed

lemma a2b_loop_sextet:
  assumes "i < 64"
  shows "a2b_loop quad_pos leftchar pads bin_data (b2a i # rest) =
     (if quad_pos = 0 then a2b_loop 1 i 0 bin_data rest
      else if quad_pos = 1 then
        a2b_loop 2 (i AND 15) 0 (bin_data @ [push_bit 2 leftchar OR drop_bit 4 i]) rest
      else if quad_pos = 2 then
        a2b_loop 3 (i AND 3) 0 (bin_data @ [push_bit 4 leftchar OR drop_bit 2 i]) rest
      else a2b_loop 0 0 0 (bin_data @ [push_bit 6 leftchar OR i]) rest)"
  using assms table_inverse [OF assms] by (simp add: Let_def not_le [symmetric])

subsection \<open>Bit identities on bytes\<close>

lemma lt8_cases:
  "ix < LENGTH(8) \<Longrightarrow>
     ix = (7::nat) \<or> ix = 6 \<or> ix = 5 \<or> ix = 4 \<or> ix = 3 \<or> ix = 2 \<or> ix = 1 \<or> ix = 0"
  by simp arith

lemma and63_lt: "(x::byte) AND 63 = x \<Longrightarrow> x < 64"
proof -
  assume h: "x AND 63 = x"
  have "x AND 63 \<le> 63" by (rule word_and_le1)
  with h have "x \<le> 63" by simp
  then show ?thesis by (simp add: word_le_nat_alt word_less_nat_alt)
qed

lemma sextet1: "drop_bit 2 (a::byte) < 64"
  by (rule and63_lt, rule bit_word_eqI, drule lt8_cases, elim disjE) (auto simp add: bit_simps dest: bit_imp_le_length)

lemma sextet2: "(push_bit 4 (a AND 3) OR drop_bit 4 b :: byte) < 64"
  by (rule and63_lt, rule bit_word_eqI, drule lt8_cases, elim disjE) (auto simp add: bit_simps dest: bit_imp_le_length)

lemma sextet2': "(push_bit 4 (a AND 3) :: byte) < 64"
  by (rule and63_lt, rule bit_word_eqI, drule lt8_cases, elim disjE) (auto simp add: bit_simps dest: bit_imp_le_length)

lemma sextet3: "(push_bit 2 (b AND 15) OR drop_bit 6 c :: byte) < 64"
  by (rule and63_lt, rule bit_word_eqI, drule lt8_cases, elim disjE) (auto simp add: bit_simps dest: bit_imp_le_length)

lemma sextet3': "(push_bit 2 (b AND 15) :: byte) < 64"
  by (rule and63_lt, rule bit_word_eqI, drule lt8_cases, elim disjE) (auto simp add: bit_simps dest: bit_imp_le_length)

lemma sextet4: "(c AND 63 :: byte) < 64"
  by (rule and63_lt, rule bit_word_eqI, drule lt8_cases, elim disjE) (auto simp add: bit_simps dest: bit_imp_le_length)

lemma byte1: "push_bit 2 (drop_bit 2 a) OR drop_bit 4 (push_bit 4 (a AND 3) OR drop_bit 4 b) = (a::byte)"
  by (rule bit_word_eqI, drule lt8_cases, elim disjE) (auto simp add: bit_simps dest: bit_imp_le_length)

lemma byte1': "push_bit 2 (drop_bit 2 a) OR drop_bit 4 (push_bit 4 (a AND 3)) = (a::byte)"
  by (rule bit_word_eqI, drule lt8_cases, elim disjE) (auto simp add: bit_simps dest: bit_imp_le_length)

lemma byte2:
  "push_bit 4 ((push_bit 4 (a AND 3) OR drop_bit 4 b) AND 15)
     OR drop_bit 2 (push_bit 2 (b AND 15) OR drop_bit 6 c) = (b::byte)"
  by (rule bit_word_eqI, drule lt8_cases, elim disjE) (auto simp add: bit_simps dest: bit_imp_le_length)

lemma byte2':
  "push_bit 4 ((push_bit 4 (a AND 3) OR drop_bit 4 b) AND 15)
     OR drop_bit 2 (push_bit 2 (b AND 15)) = (b::byte)"
  by (rule bit_word_eqI, drule lt8_cases, elim disjE) (auto simp add: bit_simps dest: bit_imp_le_length)

lemma byte3:
  "push_bit 6 ((push_bit 2 (b AND 15) OR drop_bit 6 c) AND 3) OR (c AND 63) = (c::byte)"
  by (rule bit_word_eqI, drule lt8_cases, elim disjE) (auto simp add: bit_simps dest: bit_imp_le_length)

subsection \<open>Round trip\<close>

lemma a2b_loop_pad:
  "a2b_loop quad_pos leftchar pads bin_data (BASE64_PAD # rest) =
     (if quad_pos \<ge> 2 then
        (if quad_pos + (pads + 1) \<ge> 4 then Inr bin_data
         else a2b_loop quad_pos leftchar (pads + 1) bin_data rest)
      else a2b_loop quad_pos leftchar pads bin_data rest)"
  by simp

lemma a2b_loop_b64encode:
  "a2b_loop 0 leftchar 0 bin_data (b64encode bs) = Inr (bin_data @ bs)"
proof (induction bs arbitrary: leftchar bin_data rule: b64encode.induct)
  case 1
  show ?case by simp
next
  case (2 a)
  show ?case
    by (simp only: b64encode.simps a2b_loop_sextet sextet1 sextet2' a2b_loop_pad byte1')
       simp
next
  case (3 a b)
  show ?case
    by (simp only: b64encode.simps a2b_loop_sextet sextet1 sextet2 sextet3' a2b_loop_pad
          byte1 byte2')
       simp
next
  case (4 a b c rest)
  have "a2b_loop 0 leftchar 0 bin_data (b64encode (a # b # c # rest)) =
        a2b_loop 0 0 0 (bin_data @ [a, b, c]) (b64encode rest)"
    by (simp only: b64encode.simps append_Cons append_Nil a2b_loop_sextet sextet1 sextet2
          sextet3 sextet4 byte1 byte2 byte3)
       simp
  then show ?case by (simp add: "4.IH")
qed

lemmas b2a_sextet_ascii =
  table_inverse(3) [OF sextet1] table_inverse(3) [OF sextet2] table_inverse(3) [OF sextet2']
  table_inverse(3) [OF sextet3] table_inverse(3) [OF sextet3'] table_inverse(3) [OF sextet4]

lemma BASE64_PAD_ascii: "BASE64_PAD < 128"
  by (simp add: BASE64_PAD_def)

lemma b64encode_ascii: "list_all (\<lambda>c. c < 128) (b64encode bs)"
  by (induction bs rule: b64encode.induct)
     (simp_all only: b64encode.simps list.pred_inject append_Cons append_Nil b2a_sextet_ascii
        BASE64_PAD_ascii simp_thms)

lemma is_ascii_ascii_text: "list_all (\<lambda>c. c < 128) bs \<Longrightarrow> is_ascii (ascii_text bs)"
  by (induction bs) (simp_all add: is_ascii_def ascii_text_def word_less_nat_alt)

lemma of_nat_ascii_text: "map of_nat (ascii_text bs) = bs"
  by (induction bs) (simp_all add: ascii_text_def)

text \<open>
  Claim C1. Decoding the standard base64 encoding of any byte sequence, the empty one
  included, with \<open>base64.b64decode\<close> as the decoder calls it gives the byte sequence
  back.
\<close>

theorem b64decode_b64encode: "b64decode (ascii_text (b64encode bs)) = Inr bs"
  by (simp add: b64decode_def is_ascii_ascii_text b64encode_ascii of_nat_ascii_text
        a2b_base64_def a2b_loop_b64encode)

subsection \<open>What the decoding rejects\<close>

lemma a2b_loop_filter:
  "a2b_loop q lc p out (filter (\<lambda>c. c = BASE64_PAD \<or> table_a2b_base64 c < 64) bs) =
     a2b_loop q lc p out bs"
proof (induction bs arbitrary: q lc p out)
  case Nil
  show ?case by simp
next
  case (Cons c bs)
  show ?case
  proof (cases "c = BASE64_PAD \<or> table_a2b_base64 c < 64")
    case True
    then show ?thesis by (simp add: Cons.IH Let_def)
  next
    case False
    then show ?thesis by (simp add: Cons.IH Let_def not_less)
  qed
qed

lemma pad_not_data: "\<not> table_a2b_base64 BASE64_PAD < 64"
  by (simp add: table_a2b_base64_def BASE64_PAD_def)

lemma data_chars_Cons:
  "data_chars (c # t) = (if table_a2b_base64 c < 64 then Suc (data_chars t) else data_chars t)"
  by (simp add: data_chars_def)

lemma data_chars_Nil: "data_chars [] = 0"
  by (simp add: data_chars_def)

lemma data_chars_base64_chars: "data_chars (base64_chars bs) = data_chars bs"
proof -
  have "filter (\<lambda>c. table_a2b_base64 c < 64) (base64_chars bs) =
      filter (\<lambda>c. table_a2b_base64 c < 64) bs"
    unfolding base64_chars_def filter_filter
    by (rule filter_cong) (auto simp add: pad_not_data)
  then show ?thesis by (simp add: data_chars_def)
qed

lemma stops_at_Nil: "\<not> stops_at q p []"
  by (simp add: stops_at_def)

lemma a2b_loop_char:
  assumes c: "c \<noteq> BASE64_PAD" and t: "table_a2b_base64 c < 64" and q: "q < 4"
  shows "\<exists>lc1 out1. a2b_loop q lc p out (c # rest) = a2b_loop (Suc q mod 4) lc1 0 out1 rest"
proof -
  from q consider "q = 0" | "q = 1" | "q = 2" | "q = 3" by arith
  then show ?thesis
  proof cases
    case 1
    then have m: "Suc q mod 4 = 1" by simp
    have "a2b_loop q lc p out (c # rest) = a2b_loop 1 (table_a2b_base64 c) 0 out rest"
      using c t 1 by (simp add: Let_def not_le [symmetric])
    with m show ?thesis by metis
  next
    case 2
    then have m: "Suc q mod 4 = 2" by simp
    have "a2b_loop q lc p out (c # rest) =
        a2b_loop 2 (table_a2b_base64 c AND 15) 0
          (out @ [push_bit 2 lc OR drop_bit 4 (table_a2b_base64 c)]) rest"
      using c t 2 by (simp add: Let_def not_le [symmetric])
    with m show ?thesis by metis
  next
    case 3
    then have m: "Suc q mod 4 = 3" by simp
    have "a2b_loop q lc p out (c # rest) =
        a2b_loop 3 (table_a2b_base64 c AND 3) 0
          (out @ [push_bit 4 lc OR drop_bit 2 (table_a2b_base64 c)]) rest"
      using c t 3 by (simp add: Let_def not_le [symmetric])
    with m show ?thesis by metis
  next
    case 4
    then have m: "Suc q mod 4 = 0" by simp
    have "a2b_loop q lc p out (c # rest) =
        a2b_loop 0 0 0 (out @ [push_bit 6 lc OR table_a2b_base64 c]) rest"
      using c t 4 by (simp add: Let_def not_le [symmetric])
    with m show ?thesis by metis
  qed
qed

lemma a2b_loop_error: "a2b_loop q lc p out t = Inl e \<Longrightarrow> e = BinasciiError"
  by (induction t arbitrary: q lc p out) (auto simp add: Let_def split: if_splits)

lemma stops_at_mod: "stops_at (q mod 4) p t = stops_at q p t"
  by (simp add: stops_at_def mod_add_left_eq)

lemma stops_at_Cons:
  "stops_at q p (c # t) =
     ((c = BASE64_PAD \<and> (q mod 4 = 3 \<or> (q mod 4 = 2 \<and> 0 < p))) \<or>
      stops_at (if table_a2b_base64 c < 64 then Suc q else q)
        (if c = BASE64_PAD then (if 2 \<le> q mod 4 then Suc p else p) else 0) t)"
proof -
  let ?q = "if table_a2b_base64 c < 64 then Suc q else q"
  let ?p = "if c = BASE64_PAD then (if 2 \<le> q mod 4 then Suc p else p) else 0"
  have k: "q + data_chars (c # xs) = ?q + data_chars xs" for xs
    by (simp add: data_chars_Cons)
  have prev: "((?q + data_chars (take j t)) mod 4 = 2 \<and> (c # t) ! j = BASE64_PAD) =
      ((?q + data_chars (take j t)) mod 4 = 2 \<and>
         (if j = 0 then 0 < ?p else t ! (j - 1) = BASE64_PAD))" for j
  proof (cases j)
    case 0
    then show ?thesis by (auto simp add: data_chars_Nil pad_not_data)
  next
    case (Suc j')
    then show ?thesis by simp
  qed
  have "stops_at q p (c # t) =
      ((c = BASE64_PAD \<and> (q mod 4 = 3 \<or> (q mod 4 = 2 \<and> 0 < p))) \<or>
       (\<exists>j<length t. t ! j = BASE64_PAD \<and>
          ((?q + data_chars (take j t)) mod 4 = 3 \<or>
           ((?q + data_chars (take j t)) mod 4 = 2 \<and> (c # t) ! j = BASE64_PAD))))"
    unfolding stops_at_def
    by (simp only: length_Cons Ex_less_Suc2 nth_Cons_0 nth_Cons_Suc take_0 take_Suc_Cons k
          data_chars_Nil add_0_right if_True diff_Suc_1 nat.simps if_False)
       simp
  also have "\<dots> =
      ((c = BASE64_PAD \<and> (q mod 4 = 3 \<or> (q mod 4 = 2 \<and> 0 < p))) \<or> stops_at ?q ?p t)"
    unfolding stops_at_def by (simp only: prev)
  finally show ?thesis .
qed

lemma a2b_loop_fails:
  assumes "\<forall>c\<in>set t. c = BASE64_PAD \<or> table_a2b_base64 c < 64" and "q < 4"
  shows "(a2b_loop q lc p out t = Inl BinasciiError) =
     (\<not> stops_at q p t \<and> (q + data_chars t) mod 4 \<noteq> 0)"
  using assms
proof (induction t arbitrary: q lc p out)
  case Nil
  then show ?case by (simp add: stops_at_Nil data_chars_Nil)
next
  case (Cons c t)
  from Cons.prems have t: "\<forall>c\<in>set t. c = BASE64_PAD \<or> table_a2b_base64 c < 64"
    and c: "c = BASE64_PAD \<or> table_a2b_base64 c < 64" and q: "q < 4"
    by simp_all
  from q have qm: "q mod 4 = q" by simp
  show ?case
  proof (cases "c = BASE64_PAD")
    case True
    then have d: "data_chars (c # t) = data_chars t"
      by (simp add: data_chars_Cons pad_not_data)
    consider (stop) "2 \<le> q" "4 \<le> q + (p + 1)" | (count) "2 \<le> q" "\<not> 4 \<le> q + (p + 1)"
      | (skip) "\<not> 2 \<le> q"
      by blast
    then show ?thesis
    proof cases
      case stop
      then have "a2b_loop q lc p out (c # t) = Inr out"
        using True by simp
      moreover from stop q have "q mod 4 = 3 \<or> (q mod 4 = 2 \<and> 0 < p)"
        by (simp add: qm) arith
      then have "stops_at q p (c # t)"
        using True by (simp add: stops_at_Cons)
      ultimately show ?thesis by simp
    next
      case count
      then have m: "a2b_loop q lc p out (c # t) = a2b_loop q lc (Suc p) out t"
        using True by simp
      from count q have q2: "q = 2" and p0: "p = 0" by arith+
      have "stops_at q p (c # t) = stops_at q (Suc p) t"
        using True q2 p0 by (simp add: stops_at_Cons pad_not_data)
      with m d Cons.IH [OF t q, of lc "Suc p" out] show ?thesis by simp
    next
      case skip
      then have m: "a2b_loop q lc p out (c # t) = a2b_loop q lc p out t"
        using True by simp
      from skip have "q mod 4 \<noteq> 3" "q mod 4 \<noteq> 2" "\<not> 2 \<le> q mod 4"
        by (simp_all add: qm)
      then have "stops_at q p (c # t) = stops_at q p t"
        using True by (simp add: stops_at_Cons pad_not_data)
      with m d Cons.IH [OF t q, of lc p out] show ?thesis by simp
    qed
  next
    case False
    with c have a: "table_a2b_base64 c < 64" by simp
    obtain lc1 out1 where
      m: "a2b_loop q lc p out (c # t) = a2b_loop (Suc q mod 4) lc1 0 out1 t"
      using a2b_loop_char [OF False a q] by blast
    have "Suc q mod 4 < 4" by simp
    note ih = Cons.IH [OF t this, of lc1 0 out1]
    have s: "stops_at q p (c # t) = stops_at (Suc q mod 4) 0 t"
      using False a by (simp add: stops_at_Cons stops_at_mod)
    have "(q + data_chars (c # t)) mod 4 = (Suc q mod 4 + data_chars t) mod 4"
      using a by (simp add: data_chars_Cons mod_add_left_eq)
    with m ih s show ?thesis by simp
  qed
qed

lemma stops_at_completing_pad: "stops_at 0 0 t = completing_pad t"
proof -
  have "(if i = 0 then (0::nat) < 0 else t ! (i - 1) = BASE64_PAD) =
      (0 < i \<and> t ! (i - 1) = BASE64_PAD)" for i
    by simp
  then show ?thesis
    by (simp add: stops_at_def completing_pad_def list_ex_iff Bex_def)
qed

lemma a2b_base64_fails: "(a2b_base64 bs = Inl BinasciiError) = incomplete_group bs"
proof -
  have "a2b_base64 bs = a2b_loop 0 0 0 [] (base64_chars bs)"
    by (simp add: a2b_base64_def base64_chars_def a2b_loop_filter)
  moreover have "\<forall>c\<in>set (base64_chars bs). c = BASE64_PAD \<or> table_a2b_base64 c < 64"
    by (simp add: base64_chars_def)
  ultimately show ?thesis
    using a2b_loop_fails [of "base64_chars bs" 0 0 0 "[]"]
    by (simp add: incomplete_group_def stops_at_completing_pad)
qed

section \<open>The decoder script\<close>

lemma decoder_world_simps:
  "files (decoder_world input) (ascii ''base64_input.txt'') = Some input"
  "denied (decoder_world input) p = False"
  "text_decoding (decoder_world input) bs = Some (ascii_text bs)"
  "trace (decoder_world input) = []"
  by (simp_all add: decoder_world_def)

lemma strip_surrounded:
  assumes "list_all py_isspace lead" and "list_all py_isspace trail"
    and "body = [] \<or> (\<not> py_isspace (hd body) \<and> \<not> py_isspace (last body))"
  shows "strip (lead @ body @ trail) = body"
proof -
  have l: "dropWhile py_isspace (lead @ body @ trail) = dropWhile py_isspace (body @ trail)"
    using assms(1) by (simp add: list_all_iff dropWhile_append2)
  show ?thesis
  proof (cases "body = []")
    case True
    have e: "dropWhile py_isspace (lead @ body @ trail) = []"
      unfolding dropWhile_eq_Nil_conv using assms(1,2) True by (auto simp add: list_all_iff)
    show ?thesis unfolding strip_def e using True by simp
  next
    case False
    with assms(3) have h: "\<not> py_isspace (hd body)" and t: "\<not> py_isspace (last body)"
      by simp_all
    from False h have "dropWhile py_isspace (body @ trail) = body @ trail"
      by (cases body) simp_all
    moreover have "dropWhile py_isspace (rev trail @ rev body) = dropWhile py_isspace (rev body)"
      using assms(2) by (intro dropWhile_append2) (simp add: list_all_iff)
    moreover have "dropWhile py_isspace (rev body) = rev body"
      using False t by (cases "rev body") (simp_all add: last_rev [symmetric] hd_rev)
    ultimately show ?thesis using l by (simp add: strip_def)
  qed
qed

text \<open>
  Claim C2. The decoder reads the whole of \<open>base64_input.txt\<close> as text, strips the
  surrounding white space, decodes the rest as base64 and writes the bytes, and nothing
  else, to \<open>decoded_file.gcode\<close>, replacing what the file held. When the text of the
  input is \<open>body\<close> between white space, \<open>body\<close> neither begins nor ends with white
  space and base64 decodes it to \<open>decoded_bytes\<close>, and the output can be opened, the run
  ends normally with exactly \<open>decoded_bytes\<close> in the output file.
\<close>

theorem decoder_contract:
  assumes "\<not> denied w (ascii ''base64_input.txt'')"
    and "files w (ascii ''base64_input.txt'') = Some raw"
    and "text_decoding w raw = Some content"
    and "universal_newlines content = lead @ body @ trail"
    and "list_all py_isspace lead" and "list_all py_isspace trail"
    and "body = [] \<or> (\<not> py_isspace (hd body) \<and> \<not> py_isspace (last body))"
    and "b64decode body = Inr decoded_bytes"
    and "\<not> denied w (ascii ''decoded_file.gcode'')"
  shows "decoder w =
     (Inr (), w\<lparr>trace := trace w @ [Open (ascii ''base64_input.txt'') Mode_r,
                                      Open (ascii ''decoded_file.gcode'') Mode_wb],
               files := (files w)(ascii ''decoded_file.gcode'' \<mapsto> decoded_bytes)\<rparr>)"
proof -
  have "strip (universal_newlines content) = body"
    using assms(4-7) by (simp add: strip_surrounded)
  then show ?thesis
    using assms(1-3,8,9)
    by (simp add: decoder_def read_text_def open_read_def open_wb_def f_write_def seq_def
          emit_def lift_def Let_def)
qed

text \<open>
  The example of the specification: the input file holds the base64 encoding of the 9
  bytes \<open>G1 X0 Y0\n\<close>, here after a no-break space (which is white space, and not
  ASCII) and before a newline. The old content of the output file is replaced.
\<close>

theorem decoder_contract_witness:
  "decoder ((decoder_world ([160] @ bytes_lit ''RzEgWDAgWTAK'' @ [10]))
      \<lparr>files := (files (decoder_world ([160] @ bytes_lit ''RzEgWDAgWTAK'' @ [10])))
         (ascii ''decoded_file.gcode'' \<mapsto> bytes_lit ''old'')\<rparr>) =
     (Inr (),
      (decoder_world ([160] @ bytes_lit ''RzEgWDAgWTAK'' @ [10]))
      \<lparr>trace := [Open (ascii ''base64_input.txt'') Mode_r,
                 Open (ascii ''decoded_file.gcode'') Mode_wb],
       files := (files (decoder_world ([160] @ bytes_lit ''RzEgWDAgWTAK'' @ [10])))
         (ascii ''decoded_file.gcode'' \<mapsto> bytes_lit ''G1 X0 Y0'' @ [10])\<rparr>)
   \<and> length (bytes_lit ''G1 X0 Y0'' @ [10]) = 9
   \<and> b64encode (bytes_lit ''G1 X0 Y0'' @ [10]) = bytes_lit ''RzEgWDAgWTAK''
   \<and> b64decode ([160] @ ascii ''RzEgWDAgWTAK'' @ [10]) = Inl ValueError"
proof -
  let ?w = "(decoder_world ([160] @ bytes_lit ''RzEgWDAgWTAK'' @ [10]))
      \<lparr>files := (files (decoder_world ([160] @ bytes_lit ''RzEgWDAgWTAK'' @ [10])))
         (ascii ''decoded_file.gcode'' \<mapsto> bytes_lit ''old'')\<rparr>"
  have enc: "b64encode (bytes_lit ''G1 X0 Y0'' @ [10]) = bytes_lit ''RzEgWDAgWTAK''"
    by (simp add: bytes_lit_def b2a_def table_b2a_base64_def)
  have len: "length (bytes_lit ''G1 X0 Y0'' @ [10]) = 9"
    by (simp add: bytes_lit_def)
  have raw: "b64decode ([160] @ ascii ''RzEgWDAgWTAK'' @ [10]) = Inl ValueError"
    by (simp add: b64decode_def is_ascii_def)
  have 1: "files ?w (ascii ''base64_input.txt'') = Some ([160] @ bytes_lit ''RzEgWDAgWTAK'' @ [10])"
    by (simp add: decoder_world_def ascii_def)
  have 2: "universal_newlines (ascii_text ([160] @ bytes_lit ''RzEgWDAgWTAK'' @ [10])) =
      [160] @ ascii ''RzEgWDAgWTAK'' @ [10]"
    by (simp add: ascii_text_def bytes_lit_def ascii_def)
  have 3: "list_all py_isspace [160]" "list_all py_isspace [10]"
    by (simp_all add: py_isspace_def)
  have 4: "ascii ''RzEgWDAgWTAK'' = [] \<or> (\<not> py_isspace (hd (ascii ''RzEgWDAgWTAK''))
      \<and> \<not> py_isspace (last (ascii ''RzEgWDAgWTAK'')))"
    by (simp add: ascii_def py_isspace_def)
  have 5: "b64decode (ascii ''RzEgWDAgWTAK'') = Inr (bytes_lit ''G1 X0 Y0'' @ [10])"
    by (simp add: b64decode_def is_ascii_def a2b_base64_def ascii_def bytes_lit_def
          table_a2b_base64_def BASE64_PAD_def Let_def)
  show ?thesis
    using enc len raw
      decoder_contract [of ?w "[160] @ bytes_lit ''RzEgWDAgWTAK'' @ [10]"
        "ascii_text ([160] @ bytes_lit ''RzEgWDAgWTAK'' @ [10])" "[160]"
        "ascii ''RzEgWDAgWTAK''" "[10]" "bytes_lit ''G1 X0 Y0'' @ [10]", OF _ 1 _ 2 3 4 5]
    by (simp add: decoder_world_simps)
qed

text \<open>
  Claim C9. When the base64 decoding of the input fails, the run ends with the error of
  the decoding right after the input was read: \<open>decoded_file.gcode\<close> is not opened, so
  it is neither created nor changed.
\<close>

theorem decoder_decode_failure:
  assumes "\<not> denied w (ascii ''base64_input.txt'')"
    and "files w (ascii ''base64_input.txt'') = Some raw"
    and "text_decoding w raw = Some content"
    and "b64decode (strip (universal_newlines content)) = Inl e"
  shows "decoder w = (Inl e, w\<lparr>trace := trace w @ [Open (ascii ''base64_input.txt'') Mode_r]\<rparr>)
     \<and> files (snd (decoder w)) = files w"
  using assms
  by (simp add: decoder_def read_text_def open_read_def seq_def emit_def lift_def Let_def)

lemma qq_pad_fails:
  "b64decode (strip (universal_newlines (ascii_text (bytes_lit ''QQ='')))) = Inl BinasciiError"
  by (simp add: b64decode_def is_ascii_def a2b_base64_def strip_def py_isspace_def
        ascii_text_def bytes_lit_def table_a2b_base64_def BASE64_PAD_def Let_def)

theorem decoder_decode_failure_witness:
  "decoder (decoder_world (bytes_lit ''QQ='')) =
     (Inl BinasciiError,
      (decoder_world (bytes_lit ''QQ=''))\<lparr>trace := [Open (ascii ''base64_input.txt'') Mode_r]\<rparr>)
   \<and> files (snd (decoder (decoder_world (bytes_lit ''QQ='')))) (ascii ''decoded_file.gcode'')
       = None"
  using decoder_decode_failure [of "decoder_world (bytes_lit ''QQ='')" "bytes_lit ''QQ=''"
      "ascii_text (bytes_lit ''QQ='')" BinasciiError]
  by (simp add: decoder_world_simps qq_pad_fails) (simp add: decoder_world_def ascii_def)

subsection \<open>What the decoder accepts and rejects\<close>

lemma decoder_run:
  assumes "\<not> denied w (ascii ''base64_input.txt'')"
    and "files w (ascii ''base64_input.txt'') = Some raw"
    and "text_decoding w raw = Some content"
  shows "decoder w =
     (case b64decode (strip (universal_newlines content)) of
        Inl e \<Rightarrow> (Inl e, w\<lparr>trace := trace w @ [Open (ascii ''base64_input.txt'') Mode_r]\<rparr>)
      | Inr decoded_bytes \<Rightarrow>
          if denied w (ascii ''decoded_file.gcode'')
          then (Inl (OSError (ascii ''decoded_file.gcode'')),
                w\<lparr>trace := trace w @ [Open (ascii ''base64_input.txt'') Mode_r,
                                       Open (ascii ''decoded_file.gcode'') Mode_wb]\<rparr>)
          else (Inr (),
                w\<lparr>trace := trace w @ [Open (ascii ''base64_input.txt'') Mode_r,
                                       Open (ascii ''decoded_file.gcode'') Mode_wb],
                  files := (files w)(ascii ''decoded_file.gcode'' \<mapsto> decoded_bytes)\<rparr>))"
  using assms
  by (simp add: decoder_def read_text_def open_read_def open_wb_def f_write_def seq_def
        emit_def lift_def Let_def split: sum.split)

lemma b64decode_cases:
  "b64decode s =
     (if \<not> is_ascii s then Inl ValueError
      else if incomplete_group (map of_nat s) then Inl BinasciiError
      else a2b_base64 (map of_nat s))"
  using a2b_base64_fails [of "map of_nat s"] by (simp add: b64decode_def)

lemma b64decode_accepts:
  assumes "is_ascii s" and "\<not> incomplete_group (map of_nat s)"
  shows "\<exists>decoded_bytes. b64decode s = Inr decoded_bytes"
proof (cases "a2b_base64 (map of_nat s)")
  case (Inl e)
  then have "e = BinasciiError"
    by (simp add: a2b_base64_def a2b_loop_error)
  with Inl assms(2) show ?thesis by (simp add: a2b_base64_fails [symmetric])
next
  case (Inr bs)
  with assms show ?thesis by (simp add: b64decode_cases)
qed

text \<open>
  Claim C3, as the code has it. The decoder skips the characters outside the base64
  alphabet and stops at the first pad that completes a group, whatever follows. With
  \<open>s\<close> the stripped text of the input: when \<open>s\<close> has a character that is not ASCII the
  run ends with \<open>ValueError\<close>; otherwise it ends with \<open>binascii.Error\<close> exactly when
  the alphabet and pad characters of \<open>s\<close> end inside a group. In both cases the run ends
  right after the input was read: the output file is not opened and no file changes.
\<close>

theorem decoder_rejects_incomplete_group:
  assumes "\<not> denied w (ascii ''base64_input.txt'')"
    and "files w (ascii ''base64_input.txt'') = Some raw"
    and "text_decoding w raw = Some content"
    and "s = strip (universal_newlines content)"
  shows "(fst (decoder w) = Inl BinasciiError) = (is_ascii s \<and> incomplete_group (map of_nat s))
     \<and> (fst (decoder w) = Inl ValueError) = (\<not> is_ascii s)
     \<and> (\<not> is_ascii s \<or> incomplete_group (map of_nat s) \<longrightarrow>
          snd (decoder w) = w\<lparr>trace := trace w @ [Open (ascii ''base64_input.txt'') Mode_r]\<rparr>)"
proof -
  note run = decoder_run [OF assms(1-3), folded assms(4)]
  consider (non_ascii) "\<not> is_ascii s"
    | (incomplete) "is_ascii s" "incomplete_group (map of_nat s)"
    | (accepted) "is_ascii s" "\<not> incomplete_group (map of_nat s)"
    by blast
  then show ?thesis
  proof cases
    case non_ascii
    then have "b64decode s = Inl ValueError" by (simp add: b64decode_cases)
    with non_ascii run show ?thesis by simp
  next
    case incomplete
    then have "b64decode s = Inl BinasciiError" by (simp add: b64decode_cases)
    with incomplete run show ?thesis by simp
  next
    case accepted
    then obtain decoded_bytes where "b64decode s = Inr decoded_bytes"
      using b64decode_accepts by blast
    with accepted run show ?thesis by simp
  qed
qed

theorem decoder_rejects_incomplete_group_witness:
  "fst (decoder (decoder_world (bytes_lit ''QQ=Q''))) = Inl BinasciiError
   \<and> incomplete_group (bytes_lit ''QQ=Q'')
   \<and> snd (decoder (decoder_world (bytes_lit ''QQ=Q''))) =
       (decoder_world (bytes_lit ''QQ=Q''))\<lparr>trace := [Open (ascii ''base64_input.txt'') Mode_r]\<rparr>"
proof -
  have s: "strip (universal_newlines (ascii_text (bytes_lit ''QQ=Q''))) =
      ascii_text (bytes_lit ''QQ=Q'')"
    by (simp add: strip_def py_isspace_def ascii_text_def bytes_lit_def)
  have a: "is_ascii (ascii_text (bytes_lit ''QQ=Q''))"
    by (simp add: is_ascii_def ascii_text_def bytes_lit_def)
  have i: "incomplete_group (bytes_lit ''QQ=Q'')"
    by (simp add: incomplete_group_def completing_pad_def base64_chars_def data_chars_def
          bytes_lit_def table_a2b_base64_def BASE64_PAD_def)
  show ?thesis
    using a i decoder_rejects_incomplete_group [of "decoder_world (bytes_lit ''QQ=Q'')"
        "bytes_lit ''QQ=Q''" "ascii_text (bytes_lit ''QQ=Q'')" "ascii_text (bytes_lit ''QQ=Q'')"]
    by (simp add: decoder_world_simps s of_nat_ascii_text)
qed

lemma bang_decodes:
  "b64decode (strip (universal_newlines (ascii_text (bytes_lit ''Q!Q==''))))
     = Inr (bytes_lit ''A'')"
  by (simp add: b64decode_def is_ascii_def a2b_base64_def strip_def py_isspace_def
        ascii_text_def bytes_lit_def table_a2b_base64_def BASE64_PAD_def Let_def)

lemma decoder_run_ok:
  "b64decode (strip (universal_newlines (ascii_text input))) = Inr decoded_bytes \<Longrightarrow>
   decoder (decoder_world input) =
     (Inr (), (decoder_world input)
        \<lparr>trace := [Open (ascii ''base64_input.txt'') Mode_r,
                   Open (ascii ''decoded_file.gcode'') Mode_wb],
         files := (files (decoder_world input))(ascii ''decoded_file.gcode'' \<mapsto> decoded_bytes)\<rparr>)"
  by (simp add: decoder_def read_text_def open_read_def open_wb_def f_write_def seq_def
        emit_def lift_def Let_def decoder_world_simps)

lemma excess_pad_decodes:
  "b64decode (strip (universal_newlines (ascii_text (bytes_lit ''QUJD=''))))
     = Inr (bytes_lit ''ABC'')"
  by (simp add: b64decode_def is_ascii_def a2b_base64_def strip_def py_isspace_def
        ascii_text_def bytes_lit_def table_a2b_base64_def BASE64_PAD_def Let_def)

text \<open>
  Two inputs that refute claim C3 as it is written: \<open>Q!Q==\<close> has a character outside
  the alphabet, \<open>QUJD=\<close> has a pad after a complete group. The decoder accepts both and
  writes \<open>A\<close> and \<open>ABC\<close>.
\<close>

theorem decoder_accepts_invalid_input:
  "33 \<in> set (bytes_lit ''Q!Q=='') \<and> 33 \<notin> set table_b2a_base64 \<and> 33 \<noteq> BASE64_PAD
   \<and> fst (decoder (decoder_world (bytes_lit ''Q!Q==''))) = Inr ()
   \<and> files (snd (decoder (decoder_world (bytes_lit ''Q!Q=='')))) (ascii ''decoded_file.gcode'')
      = Some (bytes_lit ''A'')
   \<and> b64encode (bytes_lit ''ABC'') = bytes_lit ''QUJD''
   \<and> fst (decoder (decoder_world (bytes_lit ''QUJD=''))) = Inr ()
   \<and> files (snd (decoder (decoder_world (bytes_lit ''QUJD='')))) (ascii ''decoded_file.gcode'')
      = Some (bytes_lit ''ABC'')"
  by (simp add: decoder_run_ok [OF bang_decodes] decoder_run_ok [OF excess_pad_decodes])
     (simp add: bytes_lit_def table_b2a_base64_def BASE64_PAD_def b2a_def)

lemma hash_decodes:
  "b64decode (strip (universal_newlines (ascii_text (bytes_lit ''QUJD#REVG''))))
     = Inr (bytes_lit ''ABCDEF'')"
  by (simp add: b64decode_def is_ascii_def a2b_base64_def strip_def py_isspace_def
        ascii_text_def bytes_lit_def table_a2b_base64_def BASE64_PAD_def Let_def)

text \<open>
  Claim C8. The decoder calls \<open>base64.b64decode\<close> without \<open>validate=True\<close>: the bytes
  that are neither in the alphabet nor the pad character are dropped before the decoding,
  so the result is that of the input without them, and there is an input with a
  character outside the alphabet on which the decoder script succeeds.
\<close>

theorem decoder_discards_non_alphabet:
  "(\<forall>bs. a2b_base64 (filter (\<lambda>c. c = BASE64_PAD \<or> table_a2b_base64 c < 64) bs) = a2b_base64 bs)
   \<and> (\<exists>input c. c \<in> set input \<and> c \<notin> set table_b2a_base64 \<and> c \<noteq> BASE64_PAD
         \<and> fst (decoder (decoder_world input)) = Inr ())"
proof (intro conjI allI)
  fix bs
  show "a2b_base64 (filter (\<lambda>c. c = BASE64_PAD \<or> table_a2b_base64 c < 64) bs) = a2b_base64 bs"
    by (simp add: a2b_base64_def a2b_loop_filter)
next
  have "35 \<in> set (bytes_lit ''QUJD#REVG'') \<and> 35 \<notin> set table_b2a_base64 \<and> 35 \<noteq> BASE64_PAD"
    by (simp add: bytes_lit_def table_b2a_base64_def BASE64_PAD_def)
  moreover have "fst (decoder (decoder_world (bytes_lit ''QUJD#REVG''))) = Inr ()"
    by (simp add: decoder_run_ok [OF hash_decodes])
  ultimately show "\<exists>input c. c \<in> set input \<and> c \<notin> set table_b2a_base64 \<and> c \<noteq> BASE64_PAD
         \<and> fst (decoder (decoder_world input)) = Inr ()"
    by blast
qed

section \<open>The client\<close>

subsection \<open>Running a statement\<close>

lemma posted_append: "posted (evs @ evs') = posted evs @ posted evs'"
  by (induction evs rule: posted.induct) simp_all

lemma opened_append: "opened (evs @ evs') = opened evs @ opened evs'"
  by (induction evs rule: opened.induct) simp_all

lemma piece_encodable_trace:
  "piece_encodable (w\<lparr>trace := t\<rparr>) p = piece_encodable w p"
  by (induction w p rule: piece_encodable.induct) simp_all

lemma piece_encodable_files:
  "piece_encodable (w\<lparr>files := f\<rparr>) p = piece_encodable w p"
  by (induction w p rule: piece_encodable.induct) simp_all

lemma can_print_update:
  "can_print (w\<lparr>trace := t\<rparr>) ps = can_print w ps"
  "can_print (w\<lparr>files := f\<rparr>) ps = can_print w ps"
proof -
  have "piece_encodable (w\<lparr>trace := t\<rparr>) = piece_encodable w"
    by (rule ext) (rule piece_encodable_trace)
  then show "can_print (w\<lparr>trace := t\<rparr>) ps = can_print w ps"
    by (simp add: can_print_def)
  have "piece_encodable (w\<lparr>files := f\<rparr>) = piece_encodable w"
    by (rule ext) (rule piece_encodable_files)
  then show "can_print (w\<lparr>files := f\<rparr>) ps = can_print w ps"
    by (simp add: can_print_def)
qed

lemma seq_py_print:
  "seq (py_print ps) k w =
     (if can_print w ps then k () (w\<lparr>trace := trace w @ [Print ps]\<rparr>)
      else (Inl UnicodeEncodeError, w))"
  by (simp add: seq_def py_print_def emit_def)

lemma py_print_run:
  "py_print ps w =
     (if can_print w ps then (Inr (), w\<lparr>trace := trace w @ [Print ps]\<rparr>)
      else (Inl UnicodeEncodeError, w))"
  by (simp add: py_print_def emit_def)

lemma seq_open_read:
  "\<not> denied w path \<Longrightarrow> files w path = Some content \<Longrightarrow>
     seq (open_read path m) k w = k content (w\<lparr>trace := trace w @ [Open path m]\<rparr>)"
  by (simp add: seq_def open_read_def emit_def)

lemma seq_requests_post:
  "seq (requests_post req) k w =
     (case exchange (http_post w) (http_get w) DEFAULT_REDIRECT_LIMIT 0 POST req of
        (evs, Inl e) \<Rightarrow> (Inl e, w\<lparr>trace := trace w @ evs\<rparr>)
      | (evs, Inr response) \<Rightarrow> k response (w\<lparr>trace := trace w @ evs\<rparr>))"
  by (simp add: seq_def requests_post_def split: prod.splits sum.splits)

lemma seq_lift: "seq (lift r) k w = (case r of Inl e \<Rightarrow> (Inl e, w) | Inr x \<Rightarrow> k x w)"
  by (simp add: seq_def lift_def split: sum.splits)

lemma seq_open_wb:
  "\<not> denied w path \<Longrightarrow>
     seq (open_wb path) k w =
       k () (w\<lparr>trace := trace w @ [Open path Mode_wb], files := (files w)(path \<mapsto> [])\<rparr>)"
  by (simp add: seq_def open_wb_def emit_def)

lemma seq_f_write:
  "seq (f_write path data) k w =
     k () (w\<lparr>files := (files w)
               (path \<mapsto> (case files w path of None \<Rightarrow> [] | Some old \<Rightarrow> old) @ data)\<rparr>)"
  by (simp add: seq_def f_write_def)

lemma config_text: "replace_char 39 34 (str_dict config) = json_object_text config"
  by (simp add: replace_char_def str_dict_def config_def json_object_text_def repr_str_def
        repr_char_def ascii_def Let_def)

lemma config_literal:
  "json_object_text config =
     ascii ''{\"printer_preset\": \"Bambu Lab A1\", \"filament_preset\": \"Bambu PLA Basic @BBL A1\", \"process_preset\": \"0.20mm Standard @BBL A1\"}''"
  by (simp add: config_def json_object_text_def ascii_def)

subsection \<open>The messages of a call\<close>

lemma exchange_first:
  "\<exists>evs result. exchange post get allowed 0 POST req = (Post req # evs, result)"
  by (cases allowed) (auto split: sum.splits option.splits prod.splits)

lemma exchange_no_redirect:
  assumes "case post 0 req of Inl e \<Rightarrow> True | Inr r \<Rightarrow> redirect_target r = None"
  shows "exchange post get allowed 0 POST req = ([Post req], post 0 req)"
  using assms by (cases allowed) (auto split: sum.splits option.splits)

subsection \<open>Statements that send no request\<close>

lemma sends_nothing_seq:
  "sends_nothing m \<Longrightarrow> (\<And>x. sends_nothing (k x)) \<Longrightarrow> sends_nothing (seq m k)"
  by (auto simp add: sends_nothing_def seq_def split: prod.splits sum.splits)
     (metis snd_conv)+

lemma sends_nothing_if:
  "sends_nothing a \<Longrightarrow> sends_nothing b \<Longrightarrow> sends_nothing (if c then a else b)"
  by simp

lemma sends_nothing_prims:
  "sends_nothing (py_print ps)"
  "sends_nothing (lift r)"
  "sends_nothing (raise e)"
  "sends_nothing (open_wb path)"
  "sends_nothing (f_write path data)"
  by (simp_all add: sends_nothing_def py_print_def emit_def lift_def raise_def open_wb_def
        f_write_def seq_def posted_append)

lemma sends_nothing_posted:
  "sends_nothing m \<Longrightarrow> posted (trace (snd (m w))) = posted (trace w)"
  by (simp add: sends_nothing_def)

lemmas sends_nothing_intros =
  sends_nothing_seq sends_nothing_if sends_nothing_prims

lemma client_world_simps:
  "files (client_world r) (ascii ''cube.stl'') = Some (bytes_lit ''solid'')"
  "denied (client_world r) p = False"
  "http_post (client_world r) n req = Inr r"
  "trace (client_world r) = []"
  "stdout_encodes (client_world r) c = (c < 55296 \<or> 57343 < c)"
  "stdout_shows (client_world r) v = True"
  by (simp_all add: client_world_def)

subsection \<open>The command line\<close>

lemma can_print_usage:
  "can_print w [Txt (ascii ''Usage: python3 client.py <model.stl> <output.gcode>'')]"
  "can_print w [Txt (10 # ascii ''Example:'')]"
  "can_print w [Txt (ascii ''  python3 client.py cube.stl output.gcode'')]"
  by (simp_all add: can_print_def ascii_def)

text \<open>
  Claim C5. Run with fewer than two arguments (\<open>sys.argv\<close> has fewer than three
  entries), the client prints the three lines of its usage message and exits with status
  1: it sends no request and opens no file.
\<close>

theorem main_usage:
  assumes "length argv < 3"
  shows "main argv w =
      (Inl (SystemExit 1),
       w\<lparr>trace := trace w @
          [Print [Txt (ascii ''Usage: python3 client.py <model.stl> <output.gcode>'')],
           Print [Txt (10 # ascii ''Example:'')],
           Print [Txt (ascii ''  python3 client.py cube.stl output.gcode'')]]\<rparr>)
     \<and> exit_status (fst (main argv w)) = 1
     \<and> posted (trace (snd (main argv w))) = posted (trace w)
     \<and> opened (trace (snd (main argv w))) = opened (trace w)
     \<and> files (snd (main argv w)) = files w"
  using assms
  by (simp add: main_def seq_py_print raise_def posted_append opened_append can_print_usage
        can_print_update)

theorem main_usage_witness:
  "length [ascii ''client.py'', ascii ''cube.stl''] < 3
   \<and> fst (main [ascii ''client.py'', ascii ''cube.stl''] (client_world example_response)) = Inl (SystemExit 1)
   \<and> posted (trace (snd (main [ascii ''client.py'', ascii ''cube.stl''] (client_world example_response)))) = []
   \<and> opened (trace (snd (main [ascii ''client.py'', ascii ''cube.stl''] (client_world example_response)))) = []"
  using main_usage [of "[ascii ''client.py'', ascii ''cube.stl'']" "client_world example_response"]
  by (simp add: client_world_simps)

subsection \<open>The request\<close>

lemma slice_model_posted:
  assumes "\<not> denied w model_path" and "files w model_path = Some content"
    and "can_print w (loading_line model_path)" and "can_print w (sending_line server_url)"
  shows "posted (trace (snd (slice_model model_path output_path server_url w))) =
      posted (trace w) @ posted (fst (slice_exchange w model_path content server_url))"
  using assms
  apply (simp add: slice_model_def seq_py_print seq_open_read seq_requests_post config_text
      can_print_update slice_exchange_def slice_request_def
      loading_line_def sending_line_def Let_def del: if_split split: sum.split prod.split)
  apply (intro conjI allI impI)
    apply (simp_all add: posted_append)
   apply (subst sends_nothing_posted, intro sends_nothing_intros, simp add: posted_append)+
  done

text \<open>
  Claim C6, as the code has it. When the model file can be read and the console can
  write the two progress lines, the client calls \<open>requests.post\<close> once, and the first
  request it sends is a POST to the \<open>/slice\<close> endpoint of the server address, with the
  bytes of the model file as the file part \<open>model\<close> and, as the data part \<open>config\<close>,
  the three presets written with double-quoted keys and values. It is the only POST when
  the answer to it is not a redirect. Run from the command line, the client uses the
  address \<open>http://localhost:8080\<close>.
\<close>

theorem slice_model_request:
  assumes "\<not> denied w model_path" and "files w model_path = Some content"
    and "can_print w (loading_line model_path)" and "can_print w (sending_line server_url)"
  shows "(\<exists>more. posted (trace (snd (slice_model model_path output_path server_url w))) =
        posted (trace w) @
          \<lparr>url = server_url @ ascii ''/slice'',
           file_parts = [(ascii ''model'', model_path, content)],
           data_parts = [(ascii ''config'', json_object_text config)]\<rparr> # more)
     \<and> ((case http_post w 0 \<lparr>url = server_url @ ascii ''/slice'',
                 file_parts = [(ascii ''model'', model_path, content)],
                 data_parts = [(ascii ''config'', json_object_text config)]\<rparr> of
            Inl e \<Rightarrow> True | Inr r \<Rightarrow> redirect_target r = None) \<longrightarrow>
          posted (trace (snd (slice_model model_path output_path server_url w))) =
            posted (trace w) @
              [\<lparr>url = server_url @ ascii ''/slice'',
                file_parts = [(ascii ''model'', model_path, content)],
                data_parts = [(ascii ''config'', json_object_text config)]\<rparr>])
     \<and> main (prog # model_path # output_path # args) w =
         slice_model model_path output_path (ascii ''http://localhost:8080'') w"
proof (intro conjI impI)
  note p = slice_model_posted [OF assms, of output_path]
  obtain evs result where
    "slice_exchange w model_path content server_url =
       (Post (slice_request model_path content server_url) # evs, result)"
    unfolding slice_exchange_def using exchange_first by blast
  with p show "\<exists>more. posted (trace (snd (slice_model model_path output_path server_url w))) =
        posted (trace w) @
          \<lparr>url = server_url @ ascii ''/slice'',
           file_parts = [(ascii ''model'', model_path, content)],
           data_parts = [(ascii ''config'', json_object_text config)]\<rparr> # more"
    by (simp add: slice_request_def)
  show "main (prog # model_path # output_path # args) w =
      slice_model model_path output_path (ascii ''http://localhost:8080'') w"
    by (simp add: main_def default_server_url_def)
  assume "case http_post w 0 \<lparr>url = server_url @ ascii ''/slice'',
                 file_parts = [(ascii ''model'', model_path, content)],
                 data_parts = [(ascii ''config'', json_object_text config)]\<rparr> of
            Inl e \<Rightarrow> True | Inr r \<Rightarrow> redirect_target r = None"
  then have "slice_exchange w model_path content server_url =
      ([Post (slice_request model_path content server_url)],
       http_post w 0 (slice_request model_path content server_url))"
    unfolding slice_exchange_def slice_request_def by (rule exchange_no_redirect)
  with p show "posted (trace (snd (slice_model model_path output_path server_url w))) =
            posted (trace w) @
              [\<lparr>url = server_url @ ascii ''/slice'',
                file_parts = [(ascii ''model'', model_path, content)],
                data_parts = [(ascii ''config'', json_object_text config)]\<rparr>]"
    by (simp add: slice_request_def)
qed

lemma can_print_cube:
  "can_print (client_world r) (loading_line (ascii ''cube.stl''))"
  "can_print (client_world r) (sending_line (ascii ''http://localhost:8080''))"
  by (simp_all add: can_print_def loading_line_def sending_line_def client_world_simps ascii_def)

lemma localhost_slice:
  "ascii ''http://localhost:8080'' @ ascii ''/slice'' = ascii ''http://localhost:8080/slice''"
  by (simp add: ascii_def)

lemma example_not_redirect: "redirect_target example_response = None"
  by (simp add: redirect_target_def example_response_def ok_response_def)

theorem slice_model_request_witness:
  "posted (trace (snd (slice_model (ascii ''cube.stl'') (ascii ''out.gcode'')
      (ascii ''http://localhost:8080'') (client_world example_response)))) =
     [\<lparr>url = ascii ''http://localhost:8080/slice'',
       file_parts = [(ascii ''model'', ascii ''cube.stl'', bytes_lit ''solid'')],
       data_parts = [(ascii ''config'',
         ascii ''{\"printer_preset\": \"Bambu Lab A1\", \"filament_preset\": \"Bambu PLA Basic @BBL A1\", \"process_preset\": \"0.20mm Standard @BBL A1\"}'')]\<rparr>]"
  using slice_model_request [of "client_world example_response" "ascii ''cube.stl''"
      "bytes_lit ''solid''" "ascii ''http://localhost:8080''" "ascii ''out.gcode''",
      OF _ _ can_print_cube]
  by (simp add: client_world_simps config_literal localhost_slice example_not_redirect)

lemma exchange_final:
  assumes "case answer post get n m req of Inl e \<Rightarrow> True | Inr r \<Rightarrow> redirect_target r = None"
  shows "exchange post get allowed n m req = ([sent m req], answer post get n m req)"
  using assms by (cases allowed) (auto split: sum.splits option.splits)

lemma exchange_unfold:
  "exchange post get allowed n m req =
     (case answer post get n m req of
        Inl e \<Rightarrow> ([sent m req], Inl e)
      | Inr r \<Rightarrow>
          (case redirect_target r of
             None \<Rightarrow> ([sent m req], Inr r)
           | Some target \<Rightarrow>
               if allowed = 0 then ([sent m req], Inl TooManyRedirects)
               else (case exchange post get (allowed - 1) (Suc n)
                            (rebuild_method m (status_code r))
                            (redirected req (status_code r) target) of
                       (evs, result) \<Rightarrow> (sent m req # evs, result))))"
  by (cases allowed) (simp_all split: sum.splits option.splits)

lemma redirecting_world_exchange:
  "slice_exchange (redirecting_world example_response) (ascii ''cube.stl'') (bytes_lit ''solid'')
      (ascii ''http://localhost:8080'') =
     ([Post (slice_request (ascii ''cube.stl'') (bytes_lit ''solid'') (ascii ''http://localhost:8080'')),
       Post (slice_request (ascii ''cube.stl'') (bytes_lit ''solid'') (ascii ''http://localhost:8080''))],
      Inr example_response)"
  unfolding slice_exchange_def
  apply (subst exchange_unfold)
  apply (simp add: redirecting_world_def client_world_def redirect_target_def
      rebuild_method_def redirected_def DEFAULT_REDIRECT_LIMIT_def)
  apply (subst exchange_final)
   apply (simp_all add: example_not_redirect slice_request_def)
  done

text \<open>
  Two runs that refute claim C6 as it is written. The service answers the request with
  a 307 redirect to the same address: the client sends the POST twice. The console
  writes ASCII only: the first line cannot be printed and no request is sent.
\<close>

theorem slice_model_request_counterexample:
  "posted (trace (snd (slice_model (ascii ''cube.stl'') (ascii ''out.gcode'')
      (ascii ''http://localhost:8080'') (redirecting_world example_response)))) =
     [slice_request (ascii ''cube.stl'') (bytes_lit ''solid'') (ascii ''http://localhost:8080''),
      slice_request (ascii ''cube.stl'') (bytes_lit ''solid'') (ascii ''http://localhost:8080'')]
   \<and> slice_model (ascii ''cube.stl'') (ascii ''out.gcode'') (ascii ''http://localhost:8080'')
        (ascii_console_world example_response) =
      (Inl UnicodeEncodeError, ascii_console_world example_response)"
proof
  have c: "can_print (redirecting_world example_response) (loading_line (ascii ''cube.stl''))"
    "can_print (redirecting_world example_response) (sending_line (ascii ''http://localhost:8080''))"
    by (simp_all add: can_print_def loading_line_def sending_line_def redirecting_world_def
          client_world_simps ascii_def)
  have f: "\<not> denied (redirecting_world example_response) (ascii ''cube.stl'')"
    "files (redirecting_world example_response) (ascii ''cube.stl'') = Some (bytes_lit ''solid'')"
    "trace (redirecting_world example_response) = []"
    by (simp_all add: redirecting_world_def client_world_simps)
  show "posted (trace (snd (slice_model (ascii ''cube.stl'') (ascii ''out.gcode'')
      (ascii ''http://localhost:8080'') (redirecting_world example_response)))) =
     [slice_request (ascii ''cube.stl'') (bytes_lit ''solid'') (ascii ''http://localhost:8080''),
      slice_request (ascii ''cube.stl'') (bytes_lit ''solid'') (ascii ''http://localhost:8080'')]"
    using slice_model_posted [OF f(1,2) c, of "ascii ''out.gcode''"]
    by (simp add: redirecting_world_exchange f(3))
  have "\<not> can_print (ascii_console_world example_response)
      [Txt (128193 # ascii '' Loading model: ''), Txt (ascii ''cube.stl'')]"
    by (simp add: can_print_def ascii_console_world_def)
  then show "slice_model (ascii ''cube.stl'') (ascii ''out.gcode'') (ascii ''http://localhost:8080'')
        (ascii_console_world example_response) =
      (Inl UnicodeEncodeError, ascii_console_world example_response)"
    by (simp add: slice_model_def seq_py_print)
qed

subsection \<open>The answers of the service\<close>

text \<open>
  What the client does with an answer whose status is not 200: it prints the status and
  asks for the JSON value of the body; an exception of that call ends the run, otherwise
  the value is printed and the run ends with \<open>SystemExit(1)\<close>. A line that the console
  cannot write ends the run with \<open>UnicodeEncodeError\<close>.
\<close>

lemma slice_model_not_200:
  assumes "\<not> denied w model_path" and "files w model_path = Some content"
    and "can_print w (loading_line model_path)" and "can_print w (sending_line server_url)"
    and "slice_exchange w model_path content server_url = (evs, Inr response)"
    and "status_code response \<noteq> 200"
  shows "slice_model model_path output_path server_url w =
     (if \<not> can_print w (error_line (status_code response))
      then (Inl UnicodeEncodeError,
            w\<lparr>trace := trace w @ before_request model_path server_url @ evs\<rparr>)
      else case json response of
        Inl e \<Rightarrow>
          (Inl e, w\<lparr>trace := trace w @ before_request model_path server_url @ evs @
              [Print (error_line (status_code response))]\<rparr>)
      | Inr body \<Rightarrow>
          if \<not> can_print w [format_str body]
          then (Inl UnicodeEncodeError,
                w\<lparr>trace := trace w @ before_request model_path server_url @ evs @
                  [Print (error_line (status_code response))]\<rparr>)
          else (Inl (SystemExit 1),
                w\<lparr>trace := trace w @ before_request model_path server_url @ evs @
                  [Print (error_line (status_code response)), Print [format_str body]]\<rparr>))"
  using assms
  by (simp add: slice_model_def seq_py_print seq_open_read seq_requests_post seq_lift
        config_text can_print_update slice_exchange_def slice_request_def before_request_def
        loading_line_def sending_line_def error_line_def raise_def Let_def split: sum.split)

text \<open>
  Claim C4, as the code has it. For every answer whose status is not 200 and whose body
  is JSON, when the console can write the status line and the value of the body, the
  client prints the status code and the value of the body and ends with \<open>sys.exit(1)\<close>,
  exit status 1; it does not open the output file and no file changes.
\<close>

theorem slice_model_error_status:
  assumes "\<not> denied w model_path" and "files w model_path = Some content"
    and "can_print w (loading_line model_path)" and "can_print w (sending_line server_url)"
    and "slice_exchange w model_path content server_url = (evs, Inr response)"
    and "status_code response \<noteq> 200"
    and "json response = Inr body"
    and "can_print w (error_line (status_code response))"
    and "can_print w [format_str body]"
  shows "slice_model model_path output_path server_url w =
      (Inl (SystemExit 1),
       w\<lparr>trace := trace w @ before_request model_path server_url @ evs @
          [Print [Txt (10060 # ascii '' Error: ''), Txt (str_int (status_code response))],
           Print [format_str body]]\<rparr>)
     \<and> exit_status (fst (slice_model model_path output_path server_url w)) = 1
     \<and> files (snd (slice_model model_path output_path server_url w)) = files w"
  using slice_model_not_200 [OF assms(1-6)] assms(7-9) by (simp add: error_line_def)

text \<open>
  Claim C10. For every answer whose status is not 200 and whose body is not JSON, the
  call of \<open>response.json()\<close> raises: the run ends with that exception after the status
  line, the body is not printed and \<open>sys.exit(1)\<close> is not reached. (When the console
  cannot write the status line, the run ends before that call, with
  \<open>UnicodeEncodeError\<close>.)
\<close>

theorem slice_model_error_body_not_json:
  assumes "\<not> denied w model_path" and "files w model_path = Some content"
    and "can_print w (loading_line model_path)" and "can_print w (sending_line server_url)"
    and "slice_exchange w model_path content server_url = (evs, Inr response)"
    and "status_code response \<noteq> 200"
    and "json response = Inl JSONDecodeError"
  shows "slice_model model_path output_path server_url w =
      (if can_print w [Txt (10060 # ascii '' Error: ''), Txt (str_int (status_code response))]
       then (Inl JSONDecodeError,
             w\<lparr>trace := trace w @ before_request model_path server_url @ evs @
               [Print [Txt (10060 # ascii '' Error: ''),
                       Txt (str_int (status_code response))]]\<rparr>)
       else (Inl UnicodeEncodeError,
             w\<lparr>trace := trace w @ before_request model_path server_url @ evs\<rparr>))
     \<and> fst (slice_model model_path output_path server_url w) \<noteq> Inl (SystemExit 1)"
  using slice_model_not_200 [OF assms(1-6)] assms(7) by (simp add: error_line_def)

lemma client_world_exchange:
  assumes "redirect_target r = None"
  shows "slice_exchange (client_world r) model_path content server_url =
     ([Post (slice_request model_path content server_url)], Inr r)"
  unfolding slice_exchange_def
  by (subst exchange_final) (simp_all add: client_world_simps assms)

lemma str_int_examples: "str_int 500 = ascii ''500''" "str_int 404 = ascii ''404''"
  by (simp_all add: str_int_def digits.simps ascii_def)

lemma can_print_error_line:
  "can_print (client_world r) (error_line 500)" "can_print (client_world r) (error_line 404)"
  by (simp_all add: can_print_def error_line_def client_world_simps str_int_examples ascii_def)

theorem slice_model_error_status_witness:
  "slice_model (ascii ''cube.stl'') (ascii ''out.gcode'') (ascii ''http://localhost:8080'')
     (client_world \<lparr>status_code = 500, location = None,
        json = Inr (JObj [(ascii ''error'', JStr (ascii ''slicing failed''))])\<rparr>) =
   (Inl (SystemExit 1),
    (client_world \<lparr>status_code = 500, location = None,
        json = Inr (JObj [(ascii ''error'', JStr (ascii ''slicing failed''))])\<rparr>)
    \<lparr>trace := before_request (ascii ''cube.stl'') (ascii ''http://localhost:8080'') @
       [Post (slice_request (ascii ''cube.stl'') (bytes_lit ''solid'')
                (ascii ''http://localhost:8080'')),
        Print [Txt (10060 # ascii '' Error: ''), Txt (ascii ''500'')],
        Print [Shown (JObj [(ascii ''error'', JStr (ascii ''slicing failed''))])]]\<rparr>)"
proof -
  let ?r = "\<lparr>status_code = 500, location = None,
        json = Inr (JObj [(ascii ''error'', JStr (ascii ''slicing failed''))])\<rparr> :: string response"
  have x: "slice_exchange (client_world ?r) (ascii ''cube.stl'') (bytes_lit ''solid'')
      (ascii ''http://localhost:8080'') =
     ([Post (slice_request (ascii ''cube.stl'') (bytes_lit ''solid'')
         (ascii ''http://localhost:8080''))], Inr ?r)"
    by (rule client_world_exchange) (simp add: redirect_target_def)
  have b: "can_print (client_world ?r)
      [format_str (JObj [(ascii ''error'', JStr (ascii ''slicing failed''))])]"
    by (simp add: can_print_def client_world_simps)
  show ?thesis
    using slice_model_error_status [of "client_world ?r" "ascii ''cube.stl''"
        "bytes_lit ''solid''" "ascii ''http://localhost:8080''" _ ?r
        "JObj [(ascii ''error'', JStr (ascii ''slicing failed''))]" "ascii ''out.gcode''",
        OF _ _ can_print_cube x _ _ _ b]
    by (simp add: client_world_simps str_int_examples can_print_error_line)
qed

text \<open>
  Two answers that refute claim C4 as it is written, both with status 500. The body of
  the first is not JSON: the run ends with the exception of \<open>response.json()\<close>. The
  body of the second is the JSON string of a lone surrogate (U+D800), which a UTF-8
  console cannot write: the run ends with \<open>UnicodeEncodeError\<close>. In both only the
  status line was printed and \<open>sys.exit(1)\<close> was not reached.
\<close>

theorem slice_model_error_status_counterexample:
  "slice_model (ascii ''cube.stl'') (ascii ''out.gcode'') (ascii ''http://localhost:8080'')
     (client_world \<lparr>status_code = 500, location = None, json = Inl JSONDecodeError\<rparr>) =
   (Inl JSONDecodeError,
    (client_world \<lparr>status_code = 500, location = None, json = Inl JSONDecodeError\<rparr>)
    \<lparr>trace := before_request (ascii ''cube.stl'') (ascii ''http://localhost:8080'') @
       [Post (slice_request (ascii ''cube.stl'') (bytes_lit ''solid'')
                (ascii ''http://localhost:8080'')),
        Print [Txt (10060 # ascii '' Error: ''), Txt (ascii ''500'')]]\<rparr>)
   \<and> slice_model (ascii ''cube.stl'') (ascii ''out.gcode'') (ascii ''http://localhost:8080'')
     (client_world \<lparr>status_code = 500, location = None, json = Inr (JStr [55296])\<rparr>) =
   (Inl UnicodeEncodeError,
    (client_world \<lparr>status_code = 500, location = None, json = Inr (JStr [55296])\<rparr>)
    \<lparr>trace := before_request (ascii ''cube.stl'') (ascii ''http://localhost:8080'') @
       [Post (slice_request (ascii ''cube.stl'') (bytes_lit ''solid'')
                (ascii ''http://localhost:8080'')),
        Print [Txt (10060 # ascii '' Error: ''), Txt (ascii ''500'')]]\<rparr>)"
proof
  let ?r = "\<lparr>status_code = 500, location = None, json = Inl JSONDecodeError\<rparr> :: string response"
  have x: "slice_exchange (client_world ?r) (ascii ''cube.stl'') (bytes_lit ''solid'')
      (ascii ''http://localhost:8080'') =
     ([Post (slice_request (ascii ''cube.stl'') (bytes_lit ''solid'')
         (ascii ''http://localhost:8080''))], Inr ?r)"
    by (rule client_world_exchange) (simp add: redirect_target_def)
  show "slice_model (ascii ''cube.stl'') (ascii ''out.gcode'') (ascii ''http://localhost:8080'')
     (client_world ?r) =
   (Inl JSONDecodeError,
    (client_world ?r)
    \<lparr>trace := before_request (ascii ''cube.stl'') (ascii ''http://localhost:8080'') @
       [Post (slice_request (ascii ''cube.stl'') (bytes_lit ''solid'')
                (ascii ''http://localhost:8080'')),
        Print [Txt (10060 # ascii '' Error: ''), Txt (ascii ''500'')]]\<rparr>)"
    using slice_model_not_200 [of "client_world ?r" "ascii ''cube.stl''" "bytes_lit ''solid''"
        "ascii ''http://localhost:8080''" _ ?r "ascii ''out.gcode''", OF _ _ can_print_cube x]
    by (simp add: client_world_simps can_print_error_line)
       (simp add: error_line_def str_int_examples)
next
  let ?r = "\<lparr>status_code = 500, location = None, json = Inr (JStr [55296])\<rparr> :: string response"
  have x: "slice_exchange (client_world ?r) (ascii ''cube.stl'') (bytes_lit ''solid'')
      (ascii ''http://localhost:8080'') =
     ([Post (slice_request (ascii ''cube.stl'') (bytes_lit ''solid'')
         (ascii ''http://localhost:8080''))], Inr ?r)"
    by (rule client_world_exchange) (simp add: redirect_target_def)
  have b: "\<not> can_print (client_world ?r) [format_str (JStr [55296])]"
    by (simp add: can_print_def client_world_simps)
  show "slice_model (ascii ''cube.stl'') (ascii ''out.gcode'') (ascii ''http://localhost:8080'')
     (client_world ?r) =
   (Inl UnicodeEncodeError,
    (client_world ?r)
    \<lparr>trace := before_request (ascii ''cube.stl'') (ascii ''http://localhost:8080'') @
       [Post (slice_request (ascii ''cube.stl'') (bytes_lit ''solid'')
                (ascii ''http://localhost:8080'')),
        Print [Txt (10060 # ascii '' Error: ''), Txt (ascii ''500'')]]\<rparr>)"
    using b slice_model_not_200 [of "client_world ?r" "ascii ''cube.stl''" "bytes_lit ''solid''"
        "ascii ''http://localhost:8080''" _ ?r "ascii ''out.gcode''", OF _ _ can_print_cube x]
    by (simp add: client_world_simps can_print_error_line)
       (simp add: error_line_def str_int_examples)
qed

theorem slice_model_error_body_not_json_witness:
  "slice_model (ascii ''cube.stl'') (ascii ''out.gcode'') (ascii ''http://localhost:8080'')
     (client_world \<lparr>status_code = 404, location = None, json = Inl JSONDecodeError\<rparr>) =
   (Inl JSONDecodeError,
    (client_world \<lparr>status_code = 404, location = None, json = Inl JSONDecodeError\<rparr>)
    \<lparr>trace := before_request (ascii ''cube.stl'') (ascii ''http://localhost:8080'') @
       [Post (slice_request (ascii ''cube.stl'') (bytes_lit ''solid'')
                (ascii ''http://localhost:8080'')),
        Print [Txt (10060 # ascii '' Error: ''), Txt (ascii ''404'')]]\<rparr>)"
proof -
  let ?r = "\<lparr>status_code = 404, location = None, json = Inl JSONDecodeError\<rparr> :: string response"
  have x: "slice_exchange (client_world ?r) (ascii ''cube.stl'') (bytes_lit ''solid'')
      (ascii ''http://localhost:8080'') =
     ([Post (slice_request (ascii ''cube.stl'') (bytes_lit ''solid'')
         (ascii ''http://localhost:8080''))], Inr ?r)"
    by (rule client_world_exchange) (simp add: redirect_target_def)
  have e: "can_print (client_world ?r) [Txt (10060 # ascii '' Error: ''), Txt (ascii ''404'')]"
    using can_print_error_line(2) [of ?r] by (simp add: error_line_def str_int_examples)
  show ?thesis
    using e slice_model_error_body_not_json [of "client_world ?r" "ascii ''cube.stl''"
        "bytes_lit ''solid''" "ascii ''http://localhost:8080''" _ ?r "ascii ''out.gcode''",
        OF _ _ can_print_cube x]
    by (simp add: client_world_simps str_int_examples)
qed

lemma slice_result_fields:
  "getitem (slice_result job_id cost) (ascii ''stats'') = Inr (slice_stats cost)"
  "getitem (slice_result job_id cost) (ascii ''job_id'') = Inr job_id"
  "getitem (slice_result job_id cost) (ascii ''gcode'') = Inr (JStr (ascii ''WA==''))"
  by (simp_all add: slice_result_def ascii_def)

lemma slice_stats_fields:
  "getitem (slice_stats cost) (ascii ''estimated_print_time'') = Inr (JStr (ascii ''1h''))"
  "getitem (slice_stats cost) (ascii ''total_used_filament'') = Inr (JFloat ''100.5'')"
  "getitem (slice_stats cost) (ascii ''total_weight'') = Inr (JFloat ''10.2'')"
  "getitem (slice_stats cost) (ascii ''total_cost'') = Inr cost"
  by (simp_all add: slice_stats_def ascii_def)

lemma ok_response_simps:
  "status_code (ok_response result) = 200"
  "json (ok_response result) = Inr result"
  "redirect_target (ok_response result) = None"
  by (simp_all add: ok_response_def redirect_target_def)

lemma example_gcode: "b64decode (ascii ''WA=='') = Inr (bytes_lit ''X'')"
  by (simp add: b64decode_def is_ascii_def a2b_base64_def ascii_def bytes_lit_def
        table_a2b_base64_def BASE64_PAD_def Let_def)

lemma format_2f_number:
  "in_float_range x \<Longrightarrow> format_2f (json_number x) = Inr (Fixed2 x)"
  by (cases x) simp_all

text \<open>
  Two ways a run on a successful answer ends early: the console cannot write the line
  of the job id, or the cost cannot be formatted with \<open>.2f\<close>. Nothing is written.
\<close>

lemma slice_model_job_id_unprintable:
  assumes "\<not> denied w model_path" and "files w model_path = Some content"
    and "can_print w (loading_line model_path)" and "can_print w (sending_line server_url)"
    and "slice_exchange w model_path content server_url = (evs, Inr response)"
    and "status_code response = 200"
    and "json response = Inr result"
    and "getitem result (ascii ''stats'') = Inr stats"
    and "getitem result (ascii ''job_id'') = Inr job_id"
    and "can_print w [Txt (10 # 9989 # ascii '' Slicing completed!'')]"
    and "\<not> can_print w [Txt (ascii ''   Job ID: ''), format_str job_id]"
  shows "slice_model model_path output_path server_url w =
      (Inl UnicodeEncodeError,
       w\<lparr>trace := trace w @ before_request model_path server_url @ evs @
          [Print [Txt (10 # 9989 # ascii '' Slicing completed!'')]]\<rparr>)"
  using assms
  by (simp add: slice_model_def seq_py_print seq_open_read seq_requests_post seq_lift
        config_text can_print_update slice_exchange_def slice_request_def before_request_def
        loading_line_def sending_line_def Let_def)

lemma slice_model_cost_unformattable:
  assumes "\<not> denied w model_path" and "files w model_path = Some content"
    and "can_print w (loading_line model_path)" and "can_print w (sending_line server_url)"
    and "slice_exchange w model_path content server_url = (evs, Inr response)"
    and "status_code response = 200"
    and "json response = Inr result"
    and "getitem result (ascii ''stats'') = Inr stats"
    and "getitem result (ascii ''job_id'') = Inr job_id"
    and "getitem stats (ascii ''estimated_print_time'') = Inr print_time"
    and "getitem stats (ascii ''total_used_filament'') = Inr (json_number filament)"
    and "in_float_range filament"
    and "getitem stats (ascii ''total_weight'') = Inr (json_number weight)"
    and "in_float_range weight"
    and "getitem stats (ascii ''total_cost'') = Inr cost"
    and "format_2f cost = Inl e"
    and "list_all (can_print w)
           [[Txt (10 # 9989 # ascii '' Slicing completed!'')],
            [Txt (ascii ''   Job ID: ''), format_str job_id],
            [Txt (ascii ''   Print Time: ''), format_str print_time],
            [Txt (ascii ''   Filament: ''), Fixed2 filament, Txt (ascii '' mm (''),
             Fixed2 weight, Txt (ascii '' g)'')]]"
  shows "slice_model model_path output_path server_url w =
      (Inl e,
       w\<lparr>trace := trace w @ before_request model_path server_url @ evs @
          [Print [Txt (10 # 9989 # ascii '' Slicing completed!'')],
           Print [Txt (ascii ''   Job ID: ''), format_str job_id],
           Print [Txt (ascii ''   Print Time: ''), format_str print_time],
           Print [Txt (ascii ''   Filament: ''), Fixed2 filament, Txt (ascii '' mm (''),
                  Fixed2 weight, Txt (ascii '' g)'')]]\<rparr>)"
  using assms
  by (simp add: slice_model_def seq_py_print seq_open_read seq_requests_post seq_lift
        config_text can_print_update slice_exchange_def slice_request_def before_request_def
        loading_line_def sending_line_def format_2f_number Let_def)

text \<open>
  Claim C7, as the code has it. For every answer with status 200 whose body is a JSON
  object with the fields \<open>job_id\<close>, \<open>stats\<close> (an object with \<open>estimated_print_time\<close> and
  with JSON numbers in the range of the floats as \<open>total_used_filament\<close>,
  \<open>total_weight\<close> and \<open>total_cost\<close>) and \<open>gcode\<close> (a string that decodes as base64),
  when the output file can be opened and the console can write the lines of the report,
  the client prints the job id and the statistics, decodes the G-code, writes exactly
  the decoded bytes to the output file and prints the output path and the number of
  bytes; the run ends normally, exit status 0.
\<close>

theorem slice_model_success:
  assumes "\<not> denied w model_path" and "files w model_path = Some content"
    and "can_print w (loading_line model_path)" and "can_print w (sending_line server_url)"
    and "slice_exchange w model_path content server_url = (evs, Inr response)"
    and "status_code response = 200"
    and "json response = Inr result"
    and "getitem result (ascii ''stats'') = Inr stats"
    and "getitem result (ascii ''job_id'') = Inr job_id"
    and "getitem stats (ascii ''estimated_print_time'') = Inr print_time"
    and "getitem stats (ascii ''total_used_filament'') = Inr (json_number filament)"
    and "in_float_range filament"
    and "getitem stats (ascii ''total_weight'') = Inr (json_number weight)"
    and "in_float_range weight"
    and "getitem stats (ascii ''total_cost'') = Inr (json_number cost)"
    and "in_float_range cost"
    and "getitem result (ascii ''gcode'') = Inr (JStr gcode)"
    and "b64decode gcode = Inr gcode_bytes"
    and "\<not> denied w output_path"
    and "list_all (can_print w)
           (report_lines job_id print_time filament weight cost @
            saved_lines output_path (length gcode_bytes))"
  shows "slice_model model_path output_path server_url w =
      (Inr (),
       w\<lparr>trace := trace w @ before_request model_path server_url @ evs @
          [Print [Txt (10 # 9989 # ascii '' Slicing completed!'')],
           Print [Txt (ascii ''   Job ID: ''), format_str job_id],
           Print [Txt (ascii ''   Print Time: ''), format_str print_time],
           Print [Txt (ascii ''   Filament: ''), Fixed2 filament, Txt (ascii '' mm (''),
                  Fixed2 weight, Txt (ascii '' g)'')],
           Print [Txt (ascii ''   Cost: $''), Fixed2 cost],
           Open output_path Mode_wb,
           Print [Txt (10 # 128190 # ascii '' G-code saved to: ''), Txt output_path],
           Print [Txt (ascii ''   Size: ''), Txt (str_int (int (length gcode_bytes))),
                  Txt (ascii '' bytes'')]],
         files := (files w)(output_path \<mapsto> gcode_bytes)\<rparr>)
     \<and> exit_status (fst (slice_model model_path output_path server_url w)) = 0"
  using assms
  by (simp add: slice_model_def seq_py_print seq_open_read seq_requests_post seq_lift
        seq_open_wb seq_f_write py_print_run config_text can_print_update slice_exchange_def
        slice_request_def before_request_def loading_line_def sending_line_def
        report_lines_def saved_lines_def format_2f_number Let_def)

lemma client_world_report:
  "can_print (client_world r) [Txt (10 # 9989 # ascii '' Slicing completed!'')]"
  "can_print (client_world r) [Txt (ascii ''   Job ID: ''), Txt (ascii ''abc'')]"
  "can_print (client_world r) [Txt (ascii ''   Job ID: ''), Shown (JInt 7)]"
  "can_print (client_world r) [Txt (ascii ''   Print Time: ''), Txt (ascii ''1h'')]"
  "can_print (client_world r) [Txt (ascii ''   Filament: ''), Fixed2 x, Txt (ascii '' mm (''),
       Fixed2 y, Txt (ascii '' g)'')]"
  "can_print (client_world r) [Txt (ascii ''   Cost: $''), Fixed2 z]"
  "can_print (client_world r)
     [Txt (10 # 128190 # ascii '' G-code saved to: ''), Txt (ascii ''out.gcode'')]"
  "can_print (client_world r) [Txt (ascii ''   Size: ''), Txt (ascii ''1''), Txt (ascii '' bytes'')]"
  by (simp_all add: can_print_def client_world_simps ascii_def)

lemma slice_stats_numbers:
  "getitem (slice_stats cost) (ascii ''total_used_filament'') =
     Inr (json_number (NFloat ''100.5''))"
  "getitem (slice_stats cost) (ascii ''total_weight'') = Inr (json_number (NFloat ''10.2''))"
  "getitem (slice_stats (json_number c)) (ascii ''total_cost'') = Inr (json_number c)"
  by (simp_all add: slice_stats_fields)

lemma str_int_one: "str_int 1 = ascii ''1''"
  by (simp add: str_int_def digits.simps ascii_def)

theorem slice_model_success_witness:
  "fst (slice_model (ascii ''cube.stl'') (ascii ''out.gcode'') (ascii ''http://localhost:8080'')
         (client_world example_response)) = Inr ()
   \<and> trace (snd (slice_model (ascii ''cube.stl'') (ascii ''out.gcode'')
         (ascii ''http://localhost:8080'') (client_world example_response))) =
       [Print [Txt (128193 # ascii '' Loading model: ''), Txt (ascii ''cube.stl'')],
        Open (ascii ''cube.stl'') Mode_rb,
        Print [Txt (128640 # ascii '' Sending to ''), Txt (ascii ''http://localhost:8080''),
               Txt (ascii ''/slice...'')],
        Post (slice_request (ascii ''cube.stl'') (bytes_lit ''solid'')
                (ascii ''http://localhost:8080'')),
        Print [Txt (10 # 9989 # ascii '' Slicing completed!'')],
        Print [Txt (ascii ''   Job ID: ''), Txt (ascii ''abc'')],
        Print [Txt (ascii ''   Print Time: ''), Txt (ascii ''1h'')],
        Print [Txt (ascii ''   Filament: ''), Fixed2 (NFloat ''100.5''), Txt (ascii '' mm (''),
               Fixed2 (NFloat ''10.2''), Txt (ascii '' g)'')],
        Print [Txt (ascii ''   Cost: $''), Fixed2 (NFloat ''1.23'')],
        Open (ascii ''out.gcode'') Mode_wb,
        Print [Txt (10 # 128190 # ascii '' G-code saved to: ''), Txt (ascii ''out.gcode'')],
        Print [Txt (ascii ''   Size: ''), Txt (ascii ''1''), Txt (ascii '' bytes'')]]
   \<and> files (snd (slice_model (ascii ''cube.stl'') (ascii ''out.gcode'')
         (ascii ''http://localhost:8080'') (client_world example_response)))
         (ascii ''out.gcode'') = Some (bytes_lit ''X'')
   \<and> exit_status (fst (slice_model (ascii ''cube.stl'') (ascii ''out.gcode'')
         (ascii ''http://localhost:8080'') (client_world example_response))) = 0
   \<and> length (bytes_lit ''X'') = 1
   \<and> b64encode (bytes_lit ''X'') = bytes_lit ''WA==''
   \<and> trace (snd (slice_model (ascii ''cube.stl'') (ascii ''out.gcode'')
         (ascii ''http://localhost:8080'')
         (client_world (ok_response (slice_result (JInt 7) (JInt 2)))))) ! 5 =
       Print [Txt (ascii ''   Job ID: ''), Shown (JInt 7)]
   \<and> trace (snd (slice_model (ascii ''cube.stl'') (ascii ''out.gcode'')
         (ascii ''http://localhost:8080'')
         (client_world (ok_response (slice_result (JInt 7) (JInt 2)))))) ! 8 =
       Print [Txt (ascii ''   Cost: $''), Fixed2 (NInt 2)]"
proof -
  have enc: "b64encode (bytes_lit ''X'') = bytes_lit ''WA=='' \<and> length (bytes_lit ''X'') = 1"
    by (simp add: bytes_lit_def b2a_def table_b2a_base64_def BASE64_PAD_def)
  have x: "slice_exchange (client_world (ok_response result)) (ascii ''cube.stl'')
      (bytes_lit ''solid'') (ascii ''http://localhost:8080'') =
     ([Post (slice_request (ascii ''cube.stl'') (bytes_lit ''solid'')
         (ascii ''http://localhost:8080''))], Inr (ok_response result))" for result
    by (rule client_world_exchange) (rule ok_response_simps)
  have n: "in_float_range (NFloat v)" "in_float_range (NInt 2)" for v :: string
    by (simp_all add: float_overflow_def)
  have r: "example_response = ok_response (slice_result (JStr (ascii ''abc''))
      (json_number (NFloat ''1.23'')))"
    by (simp add: example_response_def example_result_def)
  note first = slice_model_success [where output_path = "ascii ''out.gcode''"
      and job_id = "JStr (ascii ''abc'')" and cost = "NFloat ''1.23''",
      OF _ _ can_print_cube x ok_response_simps(1,2) slice_result_fields(1,2)
      slice_stats_fields(1) slice_stats_numbers(1) n(1) slice_stats_numbers(2) n(1)
      slice_stats_numbers(3) n(1) slice_result_fields(3) example_gcode]
  note second = slice_model_success [where output_path = "ascii ''out.gcode''"
      and job_id = "JInt 7" and cost = "NInt 2",
      OF _ _ can_print_cube x ok_response_simps(1,2) slice_result_fields(1,2)
      slice_stats_fields(1) slice_stats_numbers(1) n(1) slice_stats_numbers(2) n(1)
      slice_stats_numbers(3) n(2) slice_result_fields(3) example_gcode]
  show ?thesis
    using enc first second
    by (simp add: client_world_simps r report_lines_def saved_lines_def
          client_world_report str_int_one before_request_def loading_line_def
          sending_line_def)
qed

text \<open>
  Three answers that refute claim C7 as it is written; each has status 200 and all the
  fields, and the G-code \<open>X\<close> in base64. The job id of the first is a lone surrogate
  (U+D800), which a UTF-8 console cannot write: the run ends with \<open>UnicodeEncodeError\<close>.
  The cost of the second is the string \<open>1.23\<close>, which \<open>.2f\<close> refuses with
  \<open>ValueError\<close>; the cost of the third is the integer \<open>2 ^ 1024\<close>, which no float
  holds: \<open>OverflowError\<close>. In none of the runs the output file is opened or written.
\<close>

theorem slice_model_success_counterexample:
  "slice_model (ascii ''cube.stl'') (ascii ''out.gcode'') (ascii ''http://localhost:8080'')
     (client_world (ok_response (slice_result (JStr [55296]) (JFloat ''1.23'')))) =
   (Inl UnicodeEncodeError,
    (client_world (ok_response (slice_result (JStr [55296]) (JFloat ''1.23''))))
    \<lparr>trace := before_request (ascii ''cube.stl'') (ascii ''http://localhost:8080'') @
       [Post (slice_request (ascii ''cube.stl'') (bytes_lit ''solid'')
                (ascii ''http://localhost:8080'')),
        Print [Txt (10 # 9989 # ascii '' Slicing completed!'')]]\<rparr>)
   \<and> slice_model (ascii ''cube.stl'') (ascii ''out.gcode'') (ascii ''http://localhost:8080'')
     (client_world (ok_response (slice_result (JStr (ascii ''abc'')) (JStr (ascii ''1.23''))))) =
   (Inl ValueError,
    (client_world (ok_response (slice_result (JStr (ascii ''abc'')) (JStr (ascii ''1.23'')))))
    \<lparr>trace := before_request (ascii ''cube.stl'') (ascii ''http://localhost:8080'') @
       [Post (slice_request (ascii ''cube.stl'') (bytes_lit ''solid'')
                (ascii ''http://localhost:8080'')),
        Print [Txt (10 # 9989 # ascii '' Slicing completed!'')],
        Print [Txt (ascii ''   Job ID: ''), Txt (ascii ''abc'')],
        Print [Txt (ascii ''   Print Time: ''), Txt (ascii ''1h'')],
        Print [Txt (ascii ''   Filament: ''), Fixed2 (NFloat ''100.5''), Txt (ascii '' mm (''),
               Fixed2 (NFloat ''10.2''), Txt (ascii '' g)'')]]\<rparr>)
   \<and> slice_model (ascii ''cube.stl'') (ascii ''out.gcode'') (ascii ''http://localhost:8080'')
     (client_world (ok_response (slice_result (JStr (ascii ''abc'')) (JInt (2 ^ 1024))))) =
   (Inl OverflowError,
    (client_world (ok_response (slice_result (JStr (ascii ''abc'')) (JInt (2 ^ 1024)))))
    \<lparr>trace := before_request (ascii ''cube.stl'') (ascii ''http://localhost:8080'') @
       [Post (slice_request (ascii ''cube.stl'') (bytes_lit ''solid'')
                (ascii ''http://localhost:8080'')),
        Print [Txt (10 # 9989 # ascii '' Slicing completed!'')],
        Print [Txt (ascii ''   Job ID: ''), Txt (ascii ''abc'')],
        Print [Txt (ascii ''   Print Time: ''), Txt (ascii ''1h'')],
        Print [Txt (ascii ''   Filament: ''), Fixed2 (NFloat ''100.5''), Txt (ascii '' mm (''),
               Fixed2 (NFloat ''10.2''), Txt (ascii '' g)'')]]\<rparr>)"
proof (intro conjI)
  have x: "slice_exchange (client_world (ok_response result)) (ascii ''cube.stl'')
      (bytes_lit ''solid'') (ascii ''http://localhost:8080'') =
     ([Post (slice_request (ascii ''cube.stl'') (bytes_lit ''solid'')
         (ascii ''http://localhost:8080''))], Inr (ok_response result))" for result
    by (rule client_world_exchange) (rule ok_response_simps)
  have n: "in_float_range (NFloat v)" for v :: string
    by simp
  have u: "\<not> can_print (client_world r) [Txt (ascii ''   Job ID: ''), format_str (JStr [55296])]"
    for r by (simp add: can_print_def client_world_simps)
  show "slice_model (ascii ''cube.stl'') (ascii ''out.gcode'') (ascii ''http://localhost:8080'')
     (client_world (ok_response (slice_result (JStr [55296]) (JFloat ''1.23'')))) =
   (Inl UnicodeEncodeError,
    (client_world (ok_response (slice_result (JStr [55296]) (JFloat ''1.23''))))
    \<lparr>trace := before_request (ascii ''cube.stl'') (ascii ''http://localhost:8080'') @
       [Post (slice_request (ascii ''cube.stl'') (bytes_lit ''solid'')
                (ascii ''http://localhost:8080'')),
        Print [Txt (10 # 9989 # ascii '' Slicing completed!'')]]\<rparr>)"
    using slice_model_job_id_unprintable [where output_path = "ascii ''out.gcode''",
        OF _ _ can_print_cube x ok_response_simps(1,2)
        slice_result_fields(1,2) client_world_report(1) u]
    by (simp add: client_world_simps)
  have e: "format_2f (JStr (ascii ''1.23'')) = Inl ValueError"
    "format_2f (JInt (2 ^ 1024) :: string jvalue) = Inl OverflowError"
    by (simp_all add: float_overflow_def)
  have l: "list_all (can_print (client_world r))
           [[Txt (10 # 9989 # ascii '' Slicing completed!'')],
            [Txt (ascii ''   Job ID: ''), format_str (JStr (ascii ''abc''))],
            [Txt (ascii ''   Print Time: ''), format_str (JStr (ascii ''1h''))],
            [Txt (ascii ''   Filament: ''), Fixed2 (NFloat ''100.5''), Txt (ascii '' mm (''),
             Fixed2 (NFloat ''10.2''), Txt (ascii '' g)'')]]" for r
    by (simp add: client_world_report)
  note c = slice_model_cost_unformattable [where output_path = "ascii ''out.gcode''",
        OF _ _ can_print_cube x ok_response_simps(1,2)
        slice_result_fields(1,2) slice_stats_fields(1)
        slice_stats_numbers(1) n slice_stats_numbers(2) n slice_stats_fields(4) _ l]
  show "slice_model (ascii ''cube.stl'') (ascii ''out.gcode'') (ascii ''http://localhost:8080'')
     (client_world (ok_response (slice_result (JStr (ascii ''abc'')) (JStr (ascii ''1.23''))))) =
   (Inl ValueError,
    (client_world (ok_response (slice_result (JStr (ascii ''abc'')) (JStr (ascii ''1.23'')))))
    \<lparr>trace := before_request (ascii ''cube.stl'') (ascii ''http://localhost:8080'') @
       [Post (slice_request (ascii ''cube.stl'') (bytes_lit ''solid'')
                (ascii ''http://localhost:8080'')),
        Print [Txt (10 # 9989 # ascii '' Slicing completed!'')],
        Print [Txt (ascii ''   Job ID: ''), Txt (ascii ''abc'')],
        Print [Txt (ascii ''   Print Time: ''), Txt (ascii ''1h'')],
        Print [Txt (ascii ''   Filament: ''), Fixed2 (NFloat ''100.5''), Txt (ascii '' mm (''),
               Fixed2 (NFloat ''10.2''), Txt (ascii '' g)'')]]\<rparr>)"
    using c [OF _ _ e(1)] by (simp add: client_world_simps)
  show "slice_model (ascii ''cube.stl'') (ascii ''out.gcode'') (ascii ''http://localhost:8080'')
     (client_world (ok_response (slice_result (JStr (ascii ''abc'')) (JInt (2 ^ 1024))))) =
   (Inl OverflowError,
    (client_world (ok_response (slice_result (JStr (ascii ''abc'')) (JInt (2 ^ 1024)))))
    \<lparr>trace := before_request (ascii ''cube.stl'') (ascii ''http://localhost:8080'') @
       [Post (slice_request (ascii ''cube.stl'') (bytes_lit ''solid'')
                (ascii ''http://localhost:8080'')),
        Print [Txt (10 # 9989 # ascii '' Slicing completed!'')],
        Print [Txt (ascii ''   Job ID: ''), Txt (ascii ''abc'')],
        Print [Txt (ascii ''   Print Time: ''), Txt (ascii ''1h'')],
        Print [Txt (ascii ''   Filament: ''), Fixed2 (NFloat ''100.5''), Txt (ascii '' mm (''),
               Fixed2 (NFloat ''10.2''), Txt (ascii '' g)'')]]\<rparr>)"
    using c [OF _ _ e(2)] by (simp add: client_world_simps)
qed

end
